theory Spec2Isabelle
  imports Complex_Main "HOL-Library.Word"
begin

section \<open>Strings and numbers as engine.js uses them\<close>

text \<open>
  JavaScript strings are modelled as \<^typ>\<open>string\<close>: a character of the model is a UTF-16
  code unit below 256, so a model string is a JavaScript string of such code units and its
  length is the \<open>length\<close> property. \<open>String.prototype.trim\<close> removes white space and line
  terminators at both ends; among the code units below 256 these are U+0009 to U+000D,
  U+0020 and U+00A0 (the others, such as U+FEFF and U+2028, lie above 255).
\<close>

definition is_ws :: "char \<Rightarrow> bool" where
  "is_ws c = (c \<in> set [CHR 0x09, CHR 0x0A, CHR 0x0B, CHR 0x0C, CHR 0x0D, CHR 0x20, CHR 0xA0])"

definition trim :: "string \<Rightarrow> string" where
  "trim s = rev (dropWhile is_ws (rev (dropWhile is_ws s)))"

text \<open>\<open>Number.prototype.toString\<close> on an integer: decimal digits, a minus sign when negative.\<close>

definition digit_char :: "nat \<Rightarrow> char" where
  "digit_char d = (''0123456789abcdef'' ! d)"

fun show_nat :: "nat \<Rightarrow> string" where
  "show_nat n = (if n < 10 then [digit_char n] else show_nat (n div 10) @ [digit_char (n mod 10)])"

declare show_nat.simps [simp del]

definition toString :: "int \<Rightarrow> string" where
  "toString i = (if i < 0 then CHR ''-'' # show_nat (nat (- i)) else show_nat (nat i))"

text \<open>\<open>a || b\<close> on strings: the empty string is falsy, and so is an absent value.\<close>

definition or_str :: "string option \<Rightarrow> string \<Rightarrow> string" where
  "or_str a b = (case a of None \<Rightarrow> b | Some s \<Rightarrow> if s = [] then b else s)"

text \<open>\<open>Buffer.toString('hex')\<close>: two lower-case hexadecimal digits per byte.\<close>

definition hex_byte :: "8 word \<Rightarrow> string" where
  "hex_byte b = [digit_char (unat b div 16), digit_char (unat b mod 16)]"

definition toHex :: "8 word list \<Rightarrow> string" where
  "toHex bs = concat (map hex_byte bs)"

definition is_hex_char :: "char \<Rightarrow> bool" where
  "is_hex_char c = (c \<in> set ''0123456789abcdef'')"

text \<open>
  \<open>crypto.randomBytes(n)\<close> returns a buffer of exactly \<open>n\<close> bytes; the entropy source is a
  parameter giving the byte at each position.
\<close>

definition randomBytes :: "(nat \<Rightarrow> 8 word) \<Rightarrow> nat \<Rightarrow> 8 word list" where
  "randomBytes src n = map src [0..<n]"

text \<open>
  Numbers are IEEE 754 doubles. A double \<open>r\<close> with \<open>0 \<le> r < 1\<close> is \<open>m / 2 ^ e\<close> for naturals
  \<open>m < 2 ^ 53\<close>, \<open>m < 2 ^ e\<close> and \<open>e \<le> 1074\<close>. The product of such a double with an
  integer \<open>c\<close> is the exact product \<open>m * c / 2 ^ e\<close> rounded to the nearest double, ties to
  even: \<open>round53\<close> rounds the numerator to 53 significant bits.
\<close>

fun bit_length :: "nat \<Rightarrow> nat" where
  "bit_length n = (if n = 0 then 0 else Suc (bit_length (n div 2)))"

declare bit_length.simps [simp del]

definition round53 :: "nat \<Rightarrow> nat" where
  "round53 n =
     (if bit_length n \<le> 53 then n
      else
        let s = bit_length n - 53;
            q = n div 2 ^ s;
            r = n mod 2 ^ s;
            half = 2 ^ (s - 1)
        in (if r > half \<or> (r = half \<and> odd q) then q + 1 else q) * 2 ^ s)"

section \<open>The engine, its collaborators and the outside world\<close>

type_synonym error = string

text \<open>
  The collaborators of engine.js (the \<open>config\<close>, \<open>db\<close>, \<open>machine\<close>, \<open>profiles\<close>, \<open>dashboard\<close>,
  \<open>macros\<close> modules, \<open>fs\<close> and the restify server) are not part of engine.js. Each
  asynchronous call on one of them is an element of \<open>collab\<close>; the call is appended to the
  trace \<open>calls\<close> of the world, and the error it hands to its callback (\<open>None\<close> for a
  falsy \<open>err\<close>) is read from the environment. A collaborator invokes the callback it
  is given exactly once, which is what every stage of \<open>Engine.prototype.start\<close> relies on.
  \<open>ConfigureDriver d\<close> records whether \<open>config.configureDriver\<close> was handed the driver
  (\<open>True\<close>) or \<open>null\<close> (\<open>False\<close>). The logger only prints and is not modelled.
\<close>

datatype collab =
    CreateDataDirectories | ConfigureEngine | EngineUpdate "(string \<times> string) list"
  | GlobUsbmodem | ProfilesLoad | ConfigureUser | ReadSiteDefault | EngineSetProfile string
  | ReadVersionJson | ClearAppRoot | EngineApply | ConfigureDB | DbCleanup
  | MachineConnect | DetectionDaemon | ConfigureMachine | DriverSetUnits
  | ConfigureDriver bool | DriverGet | ConfigDriverDeleteMany | ConfigDriverRestore
  | SbpLoadCommands | ConfigureOpenSBP | MachineApply | DashboardConfigure | LoadApps
  | MacrosLoad | ConfigureInstance | InstanceApply | ReadSecretFile | WriteSecretFile string
  | ServerListen | AuthenticationConfigure

text \<open>
  The environment: the answers of the collaborators (which may depend on the calls made
  so far), the command line, and what the platform, the file system, the random sources
  and the hardware report.
\<close>

datatype argval = Flag | Val string

datatype version_json = Unreadable | Unparsable | Parsed "string option"

record env =
  outcome :: "collab list \<Rightarrow> collab \<Rightarrow> error option"
  argv_debug :: "argval option"
  platform :: string
  glob_files :: "string list option"
  git_head :: "string option"
  version_file :: version_json
  site_default :: string
  random_mantissa :: nat
  random_exponent :: nat
  isConnected :: bool
  driver_values :: "string list"
  driver_has :: "string \<Rightarrow> bool"
  entropy :: "nat \<Rightarrow> 8 word"

record version_info =
  hash :: string
  number :: string
  debug :: bool
  vtype :: "string option"

record firmware =
  build :: "string option"
  fw_config :: "string option"
  fw_version :: "string option"

text \<open>
  The world: the fields of the \<open>Engine\<close> object, the entries of \<open>config.engine\<close> that
  engine.js reads or writes, the secret file, and the traces of collaborator calls and of
  shell commands.
\<close>

record world =
  e_version :: "version_info option"
  time_synced :: bool
  e_firmware :: firmware
  e_machine :: bool
  auth_secret :: "string option"
  e_server :: bool
  cfg_init :: bool
  cfg_profile :: "string option"
  cfg_version :: "string option"
  cfg_server_port :: "int option"
  secret_file :: "string option"
  calls :: "collab list"
  shell :: "string list"


text \<open>
  A stage either returns, having invoked its completion callback some number of times
  (each time with an error or without), or raises a JavaScript exception.
\<close>

datatype stage_result = Ret "error option list" world | Raise string world

type_synonym stage = "env \<Rightarrow> world \<Rightarrow> stage_result"

definition call :: "collab \<Rightarrow> world \<Rightarrow> world" where
  "call c w = w\<lparr>calls := calls w @ [c]\<rparr>"

text \<open>A call whose callback receives the collaborator's error, and the world after it.\<close>

definition ask :: "env \<Rightarrow> collab \<Rightarrow> world \<Rightarrow> error option \<times> world" where
  "ask en c w = (outcome en (calls w) c, call c w)"

definition doshell :: "string \<Rightarrow> world \<Rightarrow> world" where
  "doshell cmd w = w\<lparr>shell := shell w @ [cmd]\<rparr>"

section \<open>Engine methods\<close>

text \<open>
  \<open>EngineConfigFirstTime\<close>: platform defaults. On darwin a failed glob leaves \<open>files\<close>
  undefined, and \<open>files.length\<close> raises.
\<close>

definition EngineConfigFirstTime :: "env \<Rightarrow> world \<Rightarrow> world option" where
  "EngineConfigFirstTime en w =
    (if platform en = ''linux'' then
       Some (call (EngineUpdate [(''control_port_linux'', ''/dev/ttyACM0''),
                                 (''data_port_linux'', ''/dev/ttyACM0'')]) w)
     else if platform en = ''darwin'' then
       let w1 = call GlobUsbmodem (w\<lparr>cfg_server_port := Some 9876\<rparr>)
       in (case glob_files en of
             None \<Rightarrow> None
           | Some files \<Rightarrow>
               if length files \<ge> 1 then
                 Some (call (EngineUpdate
                   [(''control_port_osx'', files ! 0),
                    (''data_port_osx'',
                       if length files \<ge> 2 \<and> files ! 1 \<noteq> [] then files ! 1 else files ! 0)]) w1)
               else Some w1)
     else Some w)"

text \<open>
  \<open>Engine.prototype.setTime\<close>. The argument \<open>obj\<close> is \<open>None\<close> when it is \<open>undefined\<close> or
  \<open>null\<close>, so that reading \<open>obj.utc\<close> raises; otherwise it is \<open>Some\<close> of the date that
  \<open>new Date(obj.utc)\<close> gives: an invalid date, whose accessors all return \<open>NaN\<close>, or the
  values of its \<open>getUTC...\<close> accessors. The flag is set before \<open>obj.utc\<close> is read. The
  result is the exception raised, if any, and the world.
\<close>

record date =
  getUTCFullYear :: int
  getUTCMonth :: int
  getUTCDay :: int
  getUTCHours :: int
  getUTCMinutes :: int
  getUTCSeconds :: int

datatype js_date = InvalidDate | UTC date

definition date_field :: "js_date \<Rightarrow> (date \<Rightarrow> int) \<Rightarrow> string" where
  "date_field d f = (case d of InvalidDate \<Rightarrow> ''NaN'' | UTC x \<Rightarrow> toString (f x))"

definition time_cmd :: "js_date \<Rightarrow> string" where
  "time_cmd d =
     (let t = date_field d getUTCFullYear @ ''-'' @ date_field d getUTCMonth @ ''-''
              @ date_field d getUTCDay @ '' '' @ date_field d getUTCHours @ '':''
              @ date_field d getUTCMinutes @ '':'' @ date_field d getUTCSeconds
      in ''timedatectl set-time '' @ t @ ''; timedatectl'')"

definition setTime :: "js_date option \<Rightarrow> world \<Rightarrow> string option \<times> world" where
  "setTime obj w =
     (if \<not> time_synced w then
        let w1 = w\<lparr>time_synced := True\<rparr>
        in (case obj of
              None \<Rightarrow> (Some ''TypeError'', w1)
            | Some d \<Rightarrow> (None, doshell (time_cmd d) w1))
      else (None, w))"



text \<open>\<open>Engine.prototype.getVersion\<close>; its callback never receives an error.\<close>

definition getVersion :: "env \<Rightarrow> world \<Rightarrow> version_info \<times> world" where
  "getVersion en w =
     (let w1 = doshell ''git rev-parse --verify HEAD'' w;
          v = \<lparr>hash = trim (or_str (git_head en) []), number = [],
               debug = (argv_debug en \<noteq> None), vtype = None\<rparr>;
          w2 = call ReadVersionJson w1;
          v' = (case version_file en of
                  Unreadable \<Rightarrow> v\<lparr>vtype := Some ''dev''\<rparr>
                | Unparsable \<Rightarrow> v\<lparr>vtype := Some ''dev''\<rparr>
                | Parsed n \<Rightarrow>
                    if or_str n [] \<noteq> [] then v\<lparr>number := or_str n [], vtype := Some ''release''\<rparr>
                    else v)
      in (v', w2\<lparr>e_version := Some v'\<rparr>))"

section \<open>The stages of Engine.prototype.start, in order\<close>

definition setup_application :: stage where
  "setup_application en w = (case ask en CreateDataDirectories w of (err, w1) \<Rightarrow> Ret [err] w1)"

definition load_engine_config :: stage where
  "load_engine_config en w = (case ask en ConfigureEngine w of (err, w1) \<Rightarrow> Ret [err] w1)"

definition check_engine_config :: stage where
  "check_engine_config en w =
     (if \<not> cfg_init w then
        (case EngineConfigFirstTime en w of
           None \<Rightarrow> Raise ''TypeError'' (call GlobUsbmodem (w\<lparr>cfg_server_port := Some 9876\<rparr>))
         | Some w1 \<Rightarrow> Ret [None] (w1\<lparr>cfg_init := True\<rparr>))
      else Ret [None] w)"

definition load_profiles :: stage where
  "load_profiles en w = Ret [None] (call ProfilesLoad w)"

definition load_users :: stage where
  "load_users en w = Ret [None] (call ConfigureUser w)"

definition profile_shim :: stage where
  "profile_shim en w =
     (if or_str (cfg_profile w) [] \<noteq> [] then Ret [None] w
      else
        (case ask en ReadSiteDefault w of (err, w1) \<Rightarrow>
           let def = (if err \<noteq> None then ''Default'' else site_default en)
           in (case ask en (EngineSetProfile def) (w1\<lparr>cfg_profile := Some def\<rparr>) of
                 (err2, w2) \<Rightarrow> Ret [err2] w2)))"

definition get_fabmo_version :: stage where
  "get_fabmo_version en w =
     (case getVersion en w of (data, w1) \<Rightarrow> Ret [None] (w1\<lparr>e_version := Some data\<rparr>))"

text \<open>
  \<open>clear_approot\<close>. The value of \<open>Math.random()\<close> is the double \<open>m / 2 ^ e\<close> that the
  environment gives by its mantissa \<open>m\<close> and exponent \<open>e\<close>. \<open>random_token m e\<close> is
  \<open>Math.floor(Math.random() * (99999 - 10000)) + 10000\<close>: the product is rounded to a
  double, \<open>Math.floor\<close> and the sum are exact. In the other branch \<open>this.version\<close> is
  read, which raises while it is still \<open>null\<close>.
\<close>

definition random_token :: "nat \<Rightarrow> nat \<Rightarrow> int" where
  "random_token m e = int (round53 (m * (99999 - 10000)) div 2 ^ e) + 10000"

definition clear_approot :: stage where
  "clear_approot en w =
    (if argv_debug en \<noteq> None then
       let random = random_token (random_mantissa en) (random_exponent en);
           w1 = w\<lparr>cfg_version := Some (toString random)\<rparr>;
           w2 = call ClearAppRoot w1;
           w3 = w2\<lparr>cfg_version := Some (toString random)\<rparr>
       in Ret [None] w3
     else
       (case e_version w of
          None \<Rightarrow> Raise ''TypeError'' w
        | Some v \<Rightarrow>
            let last_time_version = trim (or_str (cfg_version w) []);
                this_time_version = trim (or_str (Some (hash v)) (or_str (Some (number v)) []))
            in if last_time_version \<noteq> this_time_version then
                 let w1 = call ClearAppRoot w;
                     w2 = w1\<lparr>cfg_version := Some this_time_version\<rparr>
                 in Ret [None] w2
               else Ret [None] w))"

definition create_data_directories :: stage where
  "create_data_directories en w =
     (case ask en CreateDataDirectories w of (err, w1) \<Rightarrow> Ret [err] w1)"

definition apply_engine_config :: stage where
  "apply_engine_config en w = (case ask en EngineApply w of (err, w1) \<Rightarrow> Ret [err] w1)"

definition setup_database :: stage where
  "setup_database en w = (case ask en ConfigureDB w of (err, w1) \<Rightarrow> Ret [err] w1)"

definition clean_database :: stage where
  "clean_database en w = (case ask en DbCleanup w of (err, w1) \<Rightarrow> Ret [err] w1)"

definition connect :: stage where
  "connect en w = Ret [None] (call MachineConnect w)"

definition launch_detection_daemon :: stage where
  "launch_detection_daemon en w = Ret [None] (call DetectionDaemon w)"

definition load_machine_config :: stage where
  "load_machine_config en w = Ret [None] (call ConfigureMachine (w\<lparr>e_machine := True\<rparr>))"

text \<open>
  \<open>this.machine\<close> is undefined until \<open>load_machine_config\<close> has run; a stage that reads
  \<open>this.machine.isConnected()\<close> before raises.
\<close>

definition set_units :: stage where
  "set_units en w =
     (if \<not> e_machine w then Raise ''TypeError'' w
      else if isConnected en then
        (case ask en DriverSetUnits w of (err, w1) \<Rightarrow> Ret [err] w1)
      else Ret [None] w)"

definition load_driver_config :: stage where
  "load_driver_config en w =
     (if \<not> e_machine w then Raise ''TypeError'' w
      else if isConnected en then Ret [None] (call (ConfigureDriver True) w)
      else Ret [None, None] (call (ConfigureDriver False) w))"

definition nth_opt :: "'a list \<Rightarrow> nat \<Rightarrow> 'a option" where
  "nth_opt xs i = (if i < length xs then Some (xs ! i) else None)"

definition get_g2_version :: stage where
  "get_g2_version en w =
     (if \<not> e_machine w then Raise ''TypeError'' w
      else if isConnected en then
        (case ask en DriverGet w of
           (Some e, w1) \<Rightarrow> Ret [None] w1
         | (None, w1) \<Rightarrow>
             let value = driver_values en
             in Ret [None] (w1\<lparr>e_firmware := \<lparr>build = nth_opt value 0,
                                 fw_config = nth_opt value 2, fw_version = nth_opt value 1\<rparr>\<rparr>))
      else Ret [None] w)"

definition entries :: "string list" where
  "entries = [''1sa'', ''1tr'', ''1mi'', ''2sa'', ''2tr'', ''2mi'', ''3sa'', ''3tr'', ''3mi'',
              ''4sa'', ''4tr'', ''4mi'', ''5sa'', ''5tr'', ''5mi'', ''6sa'', ''6tr'', ''6mi'',
              ''ja'', ''6ma'', ''6po'', ''6su'', ''6pm'', ''6pl'']"

definition g2_shim :: stage where
  "g2_shim en w =
     (let do_shim = list_ex (driver_has en) entries
      in if do_shim then Ret [None] (call ConfigDriverRestore (call ConfigDriverDeleteMany w))
         else Ret [None] w)"

definition load_opensbp_commands :: stage where
  "load_opensbp_commands en w =
     (if \<not> e_machine w then Raise ''TypeError'' w
      else if \<not> isConnected en then Ret [None] w
      else (case ask en SbpLoadCommands w of (err, w1) \<Rightarrow> Ret [err] w1))"

definition load_opensbp_config :: stage where
  "load_opensbp_config en w =
     (if \<not> e_machine w then Raise ''TypeError'' w
      else if \<not> isConnected en then Ret [None] w
      else (case ask en ConfigureOpenSBP w of (err, w1) \<Rightarrow> Ret [err] w1))"

definition apply_machine_config :: stage where
  "apply_machine_config en w = (case ask en MachineApply w of (err, w1) \<Rightarrow> Ret [err] w1)"

definition configure_dashboard :: stage where
  "configure_dashboard en w = (case ask en DashboardConfigure w of (err, w1) \<Rightarrow> Ret [err] w1)"

definition load_apps :: stage where
  "load_apps en w = Ret [None] (call LoadApps w)"

definition load_macros :: stage where
  "load_macros en w = (case ask en MacrosLoad w of (err, w1) \<Rightarrow> Ret [err] w1)"

definition load_instance_config :: stage where
  "load_instance_config en w =
     (if \<not> e_machine w then Raise ''TypeError'' w
      else if \<not> isConnected en then Ret [None] w
      else (case ask en ConfigureInstance w of (err, w1) \<Rightarrow> Ret [err] w1))"

definition apply_instance_config :: stage where
  "apply_instance_config en w =
     (if \<not> e_machine w then Raise ''TypeError'' w
      else if \<not> isConnected en then Ret [None] w
      else (case ask en InstanceApply w of (err, w1) \<Rightarrow> Ret [err] w1))"

text \<open>
  \<open>generate_auth_key\<close>. \<open>fs.readFile\<close> fails when the environment says so or when the file
  is absent; \<open>fs.writeFile\<close> replaces the file when it succeeds and leaves it alone when it
  fails. The error of the write is not looked at.
\<close>

definition readFile_secret :: "env \<Rightarrow> world \<Rightarrow> (error option \<times> string option) \<times> world" where
  "readFile_secret en w =
     (case ask en ReadSecretFile w of
        (Some e, w1) \<Rightarrow> ((Some e, None), w1)
      | (None, w1) \<Rightarrow>
          (case secret_file w of
             None \<Rightarrow> ((Some ''ENOENT'', None), w1)
           | Some data \<Rightarrow> ((None, Some data), w1)))"

definition writeFile_secret :: "env \<Rightarrow> string \<Rightarrow> world \<Rightarrow> error option \<times> world" where
  "writeFile_secret en s w =
     (case ask en (WriteSecretFile s) w of
        (Some e, w1) \<Rightarrow> (Some e, w1)
      | (None, w1) \<Rightarrow> (None, w1\<lparr>secret_file := Some s\<rparr>))"

definition generate_auth_key :: stage where
  "generate_auth_key en w =
     (case readFile_secret en w of
        ((err, data), w1) \<Rightarrow>
          if err = None \<and> or_str data [] \<noteq> [] \<and> length (or_str data []) = 512 then
            Ret [None] (w1\<lparr>auth_secret := Some (or_str data [])\<rparr>)
          else
            let secret = toHex (randomBytes (entropy en) 256);
                w2 = w1\<lparr>auth_secret := Some secret\<rparr>
            in (case writeFile_secret en secret w2 of (werr, w3) \<Rightarrow> Ret [None] w3))"

text \<open>
  \<open>start_server\<close>: the server object is created and attached, the secret is read for the
  session middleware (which raises when no secret was set), the server listens, and
  authentication is configured. The middleware chain itself is restify's.
\<close>

definition start_server :: stage where
  "start_server en w =
     (let w1 = w\<lparr>e_server := True\<rparr>
      in (case auth_secret w1 of
            None \<Rightarrow> Raise ''TypeError'' w1
          | Some s \<Rightarrow> Ret [None] (call AuthenticationConfigure (call ServerListen w1))))"

section \<open>The sequencer: async.series and the terminal callback\<close>

text \<open>
  \<open>async.series\<close> runs the tasks in order. A task that calls back once decides the run:
  an error ends it and goes to the final callback, no error starts the next task. A task
  that never calls back leaves the run waiting, and one that raises ends it with the
  exception. When a task invokes its callback a second time the run is no longer a series:
  depending on its version the library throws \<open>Callback was already called.\<close> or carries
  on with later tasks started out of turn and the final callback invoked more than once.
  The model stops there with \<open>CalledAgain\<close> and says nothing about what follows. The
  result carries the names of the tasks that were started.
\<close>

datatype series_outcome = Completed | Failed error | Stalled | Crashed string | CalledAgain

fun async_series ::
  "(string \<times> stage) list \<Rightarrow> env \<Rightarrow> world \<Rightarrow> series_outcome \<times> string list \<times> world" where
  "async_series [] en w = (Completed, [], w)"
| "async_series ((n, f) # rest) en w =
     (case f en w of
        Raise x w1 \<Rightarrow> (Crashed x, [n], w1)
      | Ret [] w1 \<Rightarrow> (Stalled, [n], w1)
      | Ret [Some e] w1 \<Rightarrow> (Failed e, [n], w1)
      | Ret [None] w1 \<Rightarrow>
          (case async_series rest en w1 of (r, ns, w2) \<Rightarrow> (r, n # ns, w2))
      | Ret (c # c' # extra) w1 \<Rightarrow> (CalledAgain, [n], w1))"

definition engine_stages :: "(string \<times> stage) list" where
  "engine_stages =
     [(''setup_application'', setup_application),
      (''load_engine_config'', load_engine_config),
      (''check_engine_config'', check_engine_config),
      (''load_profiles'', load_profiles),
      (''load_users'', load_users),
      (''profile_shim'', profile_shim),
      (''get_fabmo_version'', get_fabmo_version),
      (''clear_approot'', clear_approot),
      (''create_data_directories'', create_data_directories),
      (''apply_engine_config'', apply_engine_config),
      (''setup_database'', setup_database),
      (''clean_database'', clean_database),
      (''connect'', connect),
      (''launch_detection_daemon'', launch_detection_daemon),
      (''load_machine_config'', load_machine_config),
      (''set_units'', set_units),
      (''load_driver_config'', load_driver_config),
      (''get_g2_version'', get_g2_version),
      (''g2_shim'', g2_shim),
      (''load_opensbp_commands'', load_opensbp_commands),
      (''load_opensbp_config'', load_opensbp_config),
      (''apply_machine_config'', apply_machine_config),
      (''configure_dashboard'', configure_dashboard),
      (''load_apps'', load_apps),
      (''load_macros'', load_macros),
      (''load_instance_config'', load_instance_config),
      (''apply_instance_config'', apply_instance_config),
      (''generate_auth_key'', generate_auth_key),
      (''start_server'', start_server)]"

text \<open>
  What \<open>Engine.prototype.start\<close> does with its caller's callback: \<open>callback(err)\<close> on
  failure, \<open>callback(null, this)\<close> on success, and no invocation when the caller gave no
  function or when the series never reached its final callback. After a repeated callback
  of a stage the model does not say.
\<close>

datatype jsarg = AErr error | ANull | AStr string | AEngine world

datatype terminal = Invoked "jsarg list" | NotInvoked | LibraryDependent

definition start :: "bool \<Rightarrow> env \<Rightarrow> world \<Rightarrow> terminal \<times> string list \<times> world" where
  "start callback_is_function en w =
     (case async_series engine_stages en w of
        (Failed err, ns, w1) \<Rightarrow>
          (if callback_is_function then Invoked [AErr err] else NotInvoked, ns, w1)
      | (Completed, ns, w1) \<Rightarrow>
          (if callback_is_function then Invoked [ANull, AEngine w1] else NotInvoked, ns, w1)
      | (Stalled, ns, w1) \<Rightarrow> (NotInvoked, ns, w1)
      | (Crashed x, ns, w1) \<Rightarrow> (NotInvoked, ns, w1)
      | (CalledAgain, ns, w1) \<Rightarrow> (LibraryDependent, ns, w1))"

section \<open>The NotFound handler of the server\<close>

text \<open>
  \<open>String.prototype.split\<close> on a one-character separator, \<open>Array.prototype.splice(1, 1, x)\<close>
  and \<open>Array.prototype.join\<close>. Array elements may be undefined (\<open>None\<close>), which \<open>join\<close>
  renders as the empty string.
\<close>

fun split_str :: "char \<Rightarrow> string \<Rightarrow> string list" where
  "split_str c [] = [[]]"
| "split_str c (x # xs) =
     (if x = c then [] # split_str c xs
      else (case split_str c xs of s # ss \<Rightarrow> (x # s) # ss | [] \<Rightarrow> [[x]]))"

definition splice_1_1 :: "'a list \<Rightarrow> 'a \<Rightarrow> 'a list" where
  "splice_1_1 arr x = take 1 arr @ [x] @ drop 2 arr"

fun join_str :: "char \<Rightarrow> string option list \<Rightarrow> string" where
  "join_str c [] = []"
| "join_str c [a] = or_str a []"
| "join_str c (a # b # bs) = or_str a [] @ c # join_str c (b # bs)"

datatype response = Redirect string | Status nat | Json "(string \<times> string) list"

text \<open>Reading an array element: an index out of range reads as undefined.\<close>

definition js_index :: "'a option list \<Rightarrow> nat \<Rightarrow> 'a option" where
  "js_index arr i = (if i < length arr then arr ! i else None)"

definition not_found :: "world \<Rightarrow> string \<Rightarrow> response" where
  "not_found w url =
     (let current_hash = cfg_version w;
          url_arr = map Some (split_str CHR ''/'' url)
      in if js_index url_arr 1 \<noteq> current_hash then
           Redirect (join_str CHR ''/'' (splice_1_1 url_arr current_hash))
         else Redirect ''/'')"

section \<open>The message relay of the dashboard (dashboard.js)\<close>

text \<open>
  Values that cross the frame boundary. Reading a property of \<open>undefined\<close> or \<open>null\<close>
  raises a TypeError (\<open>None\<close>); a missing property of an object, or any property of a
  primitive, reads as \<open>undefined\<close>.
\<close>

datatype jsv = Undefined | JNull | JBool bool | JNum int | JStr string
  | JObj "(string \<times> jsv) list"

definition get_field :: "jsv \<Rightarrow> string \<Rightarrow> jsv option" where
  "get_field v k =
     (case v of
        Undefined \<Rightarrow> None
      | JNull \<Rightarrow> None
      | JObj kvs \<Rightarrow> Some (case map_of kvs k of None \<Rightarrow> Undefined | Some x \<Rightarrow> x)
      | _ \<Rightarrow> Some Undefined)"

record machine_handle =
  m_ip :: jsv
  m_port :: jsv
  m_other :: "(string \<times> jsv) list"

text \<open>
  What the handlers do to their surroundings: calls on the \<open>ui\<close> object, \<open>resizedoc()\<close>,
  \<open>postMessage\<close> on a frame (the frame, the payload, the target origin), \<open>add_job\<close> on the
  machine handle and \<open>launchApp\<close> on the context. \<open>console.log\<close> only prints and is not
  modelled.
\<close>

datatype effect = UiSetMenuOpen | UiSetMenuClosed | Resizedoc | PostMessage nat jsv string
  | AddJob jsv | LaunchApp string

record dashboard =
  d_machine :: "machine_handle option"
  d_ui :: bool
  main_classes :: "string list"
  effects :: "effect list"

record message_event =
  source :: nat
  data :: jsv

definition new_Dashboard :: dashboard where
  "new_Dashboard = \<lparr>d_machine = None, d_ui = False, main_classes = [], effects = []\<rparr>"

definition addClass :: "string \<Rightarrow> string list \<Rightarrow> string list" where
  "addClass c cs = (if c \<in> set cs then cs else cs @ [c])"

definition removeClass :: "string \<Rightarrow> string list \<Rightarrow> string list" where
  "removeClass c cs = filter (\<lambda>x. x \<noteq> c) cs"

definition effect :: "effect \<Rightarrow> dashboard \<Rightarrow> dashboard" where
  "effect x d = d\<lparr>effects := effects d @ [x]\<rparr>"

text \<open>A handler returns the exception it raised, if any, and the dashboard it leaves.\<close>

definition openRightMenu :: "dashboard \<Rightarrow> string option \<times> dashboard" where
  "openRightMenu d =
     (let d1 = d\<lparr>main_classes := addClass ''offcanvas-overlap-left'' (main_classes d)\<rparr>
      in if d_machine d1 \<noteq> None then
           (if d_ui d1 then (None, effect Resizedoc (effect UiSetMenuOpen d1))
            else (Some ''TypeError'', d1))
         else (None, effect Resizedoc d1))"

definition closeRightMenu :: "dashboard \<Rightarrow> string option \<times> dashboard" where
  "closeRightMenu d =
     (let d1 = d\<lparr>main_classes := removeClass ''offcanvas-overlap-left'' (main_classes d)\<rparr>
      in if d_machine d1 \<noteq> None then
           (if d_ui d1 then (None, effect Resizedoc (effect UiSetMenuClosed d1))
            else (Some ''TypeError'', d1))
         else (None, effect Resizedoc d1))"

definition jobManager :: "dashboard \<Rightarrow> dashboard" where
  "jobManager d = effect (LaunchApp ''job-manager'') d"

text \<open>
  The listener installed by \<open>registerHandlers\<close>. Its first argument is the error that
  \<open>add_job\<close> hands to its callback. An exception caught by the \<open>try\<close> is thrown again.
\<close>

definition on_message :: "error option \<Rightarrow> message_event \<Rightarrow> dashboard \<Rightarrow> string option \<times> dashboard" where
  "on_message add_job_err e d =
     (case get_field (data e) ''showDRO'' of
        None \<Rightarrow> (Some ''TypeError'', d)
      | Some showDRO \<Rightarrow>
          if showDRO = JBool True then openRightMenu d
          else if showDRO = JBool False then closeRightMenu d
          else
            (case get_field (data e) ''job'' of
               None \<Rightarrow> (Some ''TypeError'', d)
             | Some job \<Rightarrow>
                 if job \<noteq> Undefined then
                   (case d_machine d of
                      None \<Rightarrow> (Some ''TypeError'', d)
                    | Some m \<Rightarrow>
                        let d1 = effect (AddJob job) d
                        in if add_job_err \<noteq> None then (None, d1) else (None, jobManager d1))
                 else
                   (case get_field (data e) ''getMachine'' of
                      None \<Rightarrow> (Some ''TypeError'', d)
                    | Some getMachine \<Rightarrow>
                        if getMachine = JBool True then
                          (case d_machine d of
                             None \<Rightarrow> (Some ''TypeError'', d)
                           | Some m \<Rightarrow>
                               let msg = JObj [(''ip'', m_ip m), (''port'', m_port m)]
                               in (None, effect (PostMessage (source e) msg ''*'') d))
                        else (None, d))))"

section \<open>Concrete inputs\<close>

definition env0 :: env where
  "env0 = \<lparr>outcome = (\<lambda>h c. None), argv_debug = None, platform = ''linux'',
            glob_files = Some [], git_head = Some ''4f2a9c1'', version_file = Unreadable,
            site_default = ''Default'', random_mantissa = 4504049992337288, random_exponent = 53,
            isConnected = False,
            driver_values = [], driver_has = (\<lambda>k. False), entropy = (\<lambda>i. 0)\<rparr>"

definition world0 :: world where
  "world0 = \<lparr>e_version = None, time_synced = False,
              e_firmware = \<lparr>build = None, fw_config = None, fw_version = None\<rparr>,
              e_machine = False, auth_secret = None, e_server = False, cfg_init = False,
              cfg_profile = None, cfg_version = None, cfg_server_port = None,
              secret_file = None, calls = [], shell = []\<rparr>"

definition version0 :: version_info where
  "version0 = \<lparr>hash = ''4f2a9c1'', number = [], debug = False, vtype = Some ''dev''\<rparr>"

text \<open>
  The build identity in the words of the specification: the content hash when there is
  one, the semantic number otherwise, trimmed.
\<close>

definition build_identity :: "version_info \<Rightarrow> string" where
  "build_identity v = trim (if hash v \<noteq> [] then hash v else number v)"

section \<open>Observations used in the statements\<close>

definition is_disk_write :: "collab \<Rightarrow> bool" where
  "is_disk_write c = (case c of WriteSecretFile s \<Rightarrow> True | _ \<Rightarrow> False)"

definition disk_writes :: "world \<Rightarrow> nat" where
  "disk_writes w = length (filter is_disk_write (calls w))"

definition readable_512 :: "env \<Rightarrow> world \<Rightarrow> bool" where
  "readable_512 en w =
     (outcome en (calls w) ReadSecretFile = None \<and>
      (case secret_file w of None \<Rightarrow> False | Some content \<Rightarrow> length content = 512))"

definition world_of :: "stage_result \<Rightarrow> world" where
  "world_of r = (case r of Ret cbs w \<Rightarrow> w | Raise x w \<Rightarrow> w)"

definition env_read_only :: env where
  "env_read_only = env0\<lparr>outcome := (\<lambda>h c. case c of WriteSecretFile s \<Rightarrow> Some ''EROFS'' | _ \<Rightarrow> None)\<rparr>"

definition fresh_secret :: "env \<Rightarrow> string" where
  "fresh_secret en = toHex (randomBytes (entropy en) 256)"


definition machine0 :: machine_handle where
  "machine0 = \<lparr>m_ip = JStr ''192.168.1.10'', m_port = JNum 9876,
                m_other = [(''status'', JStr ''idle''), (''token'', JStr ''s3cr3t'')]\<rparr>"

definition menu_class :: string where
  "menu_class = ''offcanvas-overlap-left''"

text \<open>
  \<open>runs_ok sts en w w'\<close>: every stage of \<open>sts\<close>, run in turn on the world its predecessor
  left, calls back exactly once and without an error, and the last one leaves \<open>w'\<close>.
\<close>

inductive runs_ok :: "(string \<times> stage) list \<Rightarrow> env \<Rightarrow> world \<Rightarrow> world \<Rightarrow> bool" where
  runs_ok_Nil: "runs_ok [] en w w"
| runs_ok_Cons: "f en w = Ret [None] w1 \<Longrightarrow> runs_ok rest en w1 w2 \<Longrightarrow>
     runs_ok ((n, f) # rest) en w w2"

text \<open>
  The calls that reach the hardware driver or the machine's runtime: \<open>driver.setUnits\<close>,
  \<open>driver.get\<close>, \<open>configureDriver\<close> and \<open>configureInstance\<close> when handed the driver, and
  \<open>sbp_runtime.loadCommands\<close>.
\<close>

definition is_driver_call :: "collab \<Rightarrow> bool" where
  "is_driver_call c =
     (case c of DriverSetUnits \<Rightarrow> True | DriverGet \<Rightarrow> True | ConfigureDriver d \<Rightarrow> d
      | SbpLoadCommands \<Rightarrow> True | ConfigureInstance \<Rightarrow> True | _ \<Rightarrow> False)"

definition driver_calls :: "world \<Rightarrow> collab list" where
  "driver_calls w = filter is_driver_call (calls w)"

definition succeeds :: "stage_result \<Rightarrow> bool" where
  "succeeds r = (case r of Ret [None] w \<Rightarrow> True | _ \<Rightarrow> False)"

definition all_collaborators_succeed :: "env \<Rightarrow> bool" where
  "all_collaborators_succeed en = (\<forall>h c. outcome en h c = None)"

definition calls_back_once :: "stage_result \<Rightarrow> bool" where
  "calls_back_once r = (case r of Ret cbs w \<Rightarrow> length cbs = 1 | Raise x w \<Rightarrow> True)"

definition gated_names :: "string list" where
  "gated_names = [''set_units'', ''load_driver_config'', ''get_g2_version'', ''load_opensbp_commands'']"

definition env_connected :: env where
  "env_connected = env0\<lparr>isConnected := True, driver_values := [''101.03'', ''0.98'', ''3'']\<rparr>"

definition env_no_access :: env where
  "env_no_access =
     env0\<lparr>outcome := (\<lambda>h c. case c of CreateDataDirectories \<Rightarrow> Some ''EACCES'' | _ \<Rightarrow> None)\<rparr>"

definition env_no_database :: env where
  "env_no_database =
     env0\<lparr>outcome := (\<lambda>h c. case c of ConfigureDB \<Rightarrow> Some ''EIO'' | _ \<Rightarrow> None)\<rparr>"

section \<open>Properties of the helpers\<close>

lemma bit_length_le: "n < 2 ^ k \<Longrightarrow> bit_length n \<le> k"
proof (induction k arbitrary: n)
  case 0
  then show ?case by (simp add: bit_length.simps)
next
  case (Suc k)
  then have "n div 2 < 2 ^ k" by simp
  from Suc.IH [OF this] show ?case by (subst bit_length.simps) simp
qed

lemma round53_le:
  assumes "bit_length n \<le> 70"
  shows "round53 n \<le> n + 2 ^ 16"
proof (cases "bit_length n \<le> 53")
  case True
  then show ?thesis by (simp add: round53_def)
next
  case False
  define s where "s = bit_length n - 53"
  define q where "q = n div 2 ^ s"
  define r where "r = n mod 2 ^ s"
  have s: "1 \<le> s" "s \<le> 17" using False assms by (simp_all add: s_def)
  have n: "q * 2 ^ s + r = n" unfolding q_def r_def by (rule div_mult_mod_eq)
  have two: "(2::nat) ^ s = 2 * 2 ^ (s - 1)" using s(1) by (cases s) simp_all
  have "(2::nat) ^ (s - 1) \<le> 2 ^ 16" using s(2) by (intro power_increasing) simp_all
  then have half: "(2::nat) ^ (s - 1) \<le> 65536" by simp
  have r53: "round53 n = (if r > 2 ^ (s - 1) \<or> (r = 2 ^ (s - 1) \<and> odd q) then q + 1 else q) * 2 ^ s"
    using False by (simp add: round53_def Let_def s_def q_def r_def)
  show ?thesis
  proof (cases "r > 2 ^ (s - 1) \<or> (r = 2 ^ (s - 1) \<and> odd q)")
    case True
    then have "2 ^ (s - 1) \<le> r" by auto
    moreover have "round53 n = q * 2 ^ s + 2 ^ s" using True r53 by (simp add: algebra_simps)
    ultimately have "round53 n \<le> n + 2 ^ (s - 1)" using n two by linarith
    with half show ?thesis by simp
  next
    case False
    then have "round53 n = q * 2 ^ s" using r53 by simp
    with n show ?thesis by simp
  qed
qed

lemma random_token_range:
  assumes "m < 2 ^ 53" "m < 2 ^ e"
  shows "10000 \<le> random_token m e \<and> random_token m e < 99999"
proof -
  have "m * 89999 < 2 ^ 53 * 131072" using assms(1) by (intro mult_strict_mono) simp_all
  then have "m * 89999 < 2 ^ 70" by simp
  then have "bit_length (m * 89999) \<le> 70" by (rule bit_length_le)
  then have a: "round53 (m * 89999) \<le> m * 89999 + 2 ^ 16" by (rule round53_le)
  have "Suc m \<le> 2 ^ e" using assms(2) by simp
  then have "Suc m * 89999 \<le> 2 ^ e * 89999" by (rule mult_le_mono1)
  then have b: "m * 89999 + 89999 \<le> 89999 * 2 ^ e" by (simp add: algebra_simps)
  from a b have "round53 (m * 89999) < 89999 * 2 ^ e" by simp
  then have "round53 (m * 89999) div 2 ^ e < 89999" by (rule less_mult_imp_div_less)
  then show ?thesis by (simp add: random_token_def)
qed

lemma or_str_identity:
  "trim (or_str (Some (hash v)) (or_str (Some (number v)) [])) = build_identity v"
  by (simp add: or_str_def build_identity_def)

section \<open>The version gate\<close>

text \<open>
  C1. In debug mode, whatever the token was, the stage clears the approot once and leaves
  as the persisted version the decimal string of
  \<open>Math.floor(Math.random() * 89999) + 10000\<close>, computed in doubles from the double that
  \<open>Math.random()\<close> returned: an integer in [10000, 99999). Without debug mode, when the
  trimmed persisted token differs from the build identity, the approot is cleared exactly
  once and the persisted token becomes the build identity; when they are equal the world
  is left as it was: nothing is cleared and nothing is persisted.
\<close>

theorem clear_approot_version_gate:
  "(argv_debug en \<noteq> None \<longrightarrow> random_mantissa en < 2 ^ 53 \<longrightarrow>
      random_mantissa en < 2 ^ random_exponent en \<longrightarrow>
      (let n = int (round53 (random_mantissa en * 89999) div 2 ^ random_exponent en) + 10000
       in 10000 \<le> n \<and> n < 99999 \<and>
          clear_approot en w =
            Ret [None] (w\<lparr>cfg_version := Some (toString n), calls := calls w @ [ClearAppRoot]\<rparr>)))
   \<and> (argv_debug en = None \<longrightarrow> e_version w = Some v \<longrightarrow>
        trim (or_str (cfg_version w) []) \<noteq> build_identity v \<longrightarrow>
        clear_approot en w =
          Ret [None] (w\<lparr>cfg_version := Some (build_identity v),
                        calls := calls w @ [ClearAppRoot]\<rparr>))
   \<and> (argv_debug en = None \<longrightarrow> e_version w = Some v \<longrightarrow>
        trim (or_str (cfg_version w) []) = build_identity v \<longrightarrow>
        clear_approot en w = Ret [None] w)"
proof (intro conjI impI)
  assume d: "argv_debug en \<noteq> None"
    and r: "random_mantissa en < 2 ^ 53" "random_mantissa en < 2 ^ random_exponent en"
  let ?n = "int (round53 (random_mantissa en * 89999) div 2 ^ random_exponent en) + 10000"
  have n: "random_token (random_mantissa en) (random_exponent en) = ?n"
    by (simp add: random_token_def)
  from d have "clear_approot en w =
      Ret [None] (w\<lparr>cfg_version := Some (toString ?n), calls := calls w @ [ClearAppRoot]\<rparr>)"
    by (simp add: clear_approot_def call_def n)
  moreover from random_token_range [OF r] n have "10000 \<le> ?n \<and> ?n < 99999" by simp
  ultimately show "let n = ?n
       in 10000 \<le> n \<and> n < 99999 \<and>
          clear_approot en w =
            Ret [None] (w\<lparr>cfg_version := Some (toString n), calls := calls w @ [ClearAppRoot]\<rparr>)"
    by (simp add: Let_def)
next
  assume "argv_debug en = None" "e_version w = Some v"
    "trim (or_str (cfg_version w) []) \<noteq> build_identity v"
  then show "clear_approot en w =
          Ret [None] (w\<lparr>cfg_version := Some (build_identity v),
                        calls := calls w @ [ClearAppRoot]\<rparr>)"
    by (simp add: clear_approot_def call_def or_str_identity)
next
  assume "argv_debug en = None" "e_version w = Some v"
    "trim (or_str (cfg_version w) []) = build_identity v"
  then show "clear_approot en w = Ret [None] w"
    by (simp add: clear_approot_def or_str_identity)
qed

lemma round53_example: "round53 405359995260363582712 div 9007199254740992 = 45004"
  by (simp add: round53_def bit_length.simps Let_def)

lemma toString_example: "toString 55004 = ''55004''"
  by (simp add: toString_def show_nat.simps digit_char_def)

theorem clear_approot_version_gate_witness:
  "clear_approot (env0\<lparr>argv_debug := Some Flag\<rparr>) (world0\<lparr>cfg_version := Some ''4f2a9c1''\<rparr>) =
      Ret [None] (world0\<lparr>cfg_version := Some ''55004'', calls := [ClearAppRoot]\<rparr>)
   \<and> clear_approot env0 (world0\<lparr>e_version := Some version0, cfg_version := Some ''0000000''\<rparr>) =
       Ret [None] (world0\<lparr>e_version := Some version0, cfg_version := Some ''4f2a9c1'',
                          calls := [ClearAppRoot]\<rparr>)
   \<and> clear_approot env0
        (world0\<lparr>e_version := Some version0, cfg_version := Some (CHR 0xA0 # ''4f2a9c1 '')\<rparr>) =
       Ret [None] (world0\<lparr>e_version := Some version0, cfg_version := Some (CHR 0xA0 # ''4f2a9c1 '')\<rparr>)"
  using clear_approot_version_gate [of "env0\<lparr>argv_debug := Some Flag\<rparr>"
      "world0\<lparr>cfg_version := Some ''4f2a9c1''\<rparr>"]
    clear_approot_version_gate [of env0 "world0\<lparr>e_version := Some version0, cfg_version := Some ''0000000''\<rparr>" version0]
    clear_approot_version_gate [of env0 "world0\<lparr>e_version := Some version0, cfg_version := Some (CHR 0xA0 # ''4f2a9c1 '')\<rparr>" version0]
  by (simp add: env0_def world0_def version0_def build_identity_def trim_def is_ws_def or_str_def
      round53_example toString_example)

lemma digit_char_hex: "d < 16 \<Longrightarrow> is_hex_char (digit_char d)"
  unfolding is_hex_char_def digit_char_def by (rule nth_mem) simp

lemma hex_byte_hex: "list_all is_hex_char (hex_byte b)"
proof -
  have "unat b < 256" using unsigned_less [of b, where ?'a = nat] by simp
  then have "unat b div 16 < 16" by arith
  then show ?thesis by (simp add: hex_byte_def digit_char_hex)
qed

lemma length_hex_byte: "length (hex_byte b) = 2"
  by (simp add: hex_byte_def)

lemma length_toHex: "length (toHex bs) = 2 * length bs"
  by (induction bs) (simp_all add: toHex_def length_hex_byte)

lemma toHex_hex: "list_all is_hex_char (toHex bs)"
  by (induction bs) (simp_all add: toHex_def hex_byte_hex)

lemma fresh_secret_512: "length (fresh_secret en) = 512"
  by (simp add: fresh_secret_def length_toHex randomBytes_def)

lemma fresh_secret_hex: "list_all is_hex_char (fresh_secret en)"
  by (simp add: fresh_secret_def toHex_hex)

lemma generate_auth_key_adopt:
  assumes "readable_512 en w"
  shows "generate_auth_key en w =
           Ret [None] (w\<lparr>auth_secret := secret_file w, calls := calls w @ [ReadSecretFile]\<rparr>)"
  using assms
  by (auto simp: readable_512_def generate_auth_key_def readFile_secret_def ask_def call_def
      or_str_def split: option.splits)

lemma generate_auth_key_regen:
  assumes "\<not> readable_512 en w"
  shows "generate_auth_key en w =
           Ret [None] (w\<lparr>auth_secret := Some (fresh_secret en),
              secret_file :=
                (if outcome en (calls w @ [ReadSecretFile]) (WriteSecretFile (fresh_secret en)) = None
                 then Some (fresh_secret en) else secret_file w),
              calls := calls w @ [ReadSecretFile, WriteSecretFile (fresh_secret en)]\<rparr>)"
  using assms
  by (auto simp: readable_512_def generate_auth_key_def readFile_secret_def writeFile_secret_def
      ask_def call_def or_str_def fresh_secret_def Let_def split: option.splits)


section \<open>The secret\<close>

text \<open>
  C3. When the secret file is read without error and holds exactly 512 characters, the
  stage adopts that content as the secret and writes nothing: the file is as it was. In
  every other case (a read error, no file, an empty file, any other length) it generates
  256 random bytes, adopts their 512 hexadecimal digits as the secret and writes them back
  once. In every case the stage writes to disk at most once.
\<close>

theorem generate_auth_key_provisioning:
  "(readable_512 en w \<longrightarrow>
      (\<exists>content. secret_file w = Some content \<and> length content = 512 \<and>
         generate_auth_key en w =
           Ret [None] (w\<lparr>auth_secret := Some content, calls := calls w @ [ReadSecretFile]\<rparr>))
      \<and> disk_writes (world_of (generate_auth_key en w)) = disk_writes w)
   \<and> (\<not> readable_512 en w \<longrightarrow>
        (\<exists>s w'. generate_auth_key en w = Ret [None] w' \<and>
           s = toHex (randomBytes (entropy en) 256) \<and> length s = 512 \<and>
           list_all is_hex_char s \<and> auth_secret w' = Some s \<and>
           calls w' = calls w @ [ReadSecretFile, WriteSecretFile s] \<and>
           disk_writes w' = disk_writes w + 1))
   \<and> disk_writes (world_of (generate_auth_key en w)) \<le> disk_writes w + 1"
proof -
  have adopt: "disk_writes (world_of (generate_auth_key en w)) = disk_writes w"
    and content: "\<exists>content. secret_file w = Some content \<and> length content = 512 \<and>
         generate_auth_key en w =
           Ret [None] (w\<lparr>auth_secret := Some content, calls := calls w @ [ReadSecretFile]\<rparr>)"
    if "readable_512 en w"
  proof -
    show "disk_writes (world_of (generate_auth_key en w)) = disk_writes w"
      by (simp add: generate_auth_key_adopt [OF that] world_of_def disk_writes_def
          is_disk_write_def)
    from that obtain c where "secret_file w = Some c" "length c = 512"
      by (auto simp: readable_512_def split: option.splits)
    then show "\<exists>content. secret_file w = Some content \<and> length content = 512 \<and>
         generate_auth_key en w =
           Ret [None] (w\<lparr>auth_secret := Some content, calls := calls w @ [ReadSecretFile]\<rparr>)"
      by (simp add: generate_auth_key_adopt [OF that])
  qed
  have regen: "\<exists>s w'. generate_auth_key en w = Ret [None] w' \<and>
           s = toHex (randomBytes (entropy en) 256) \<and> length s = 512 \<and>
           list_all is_hex_char s \<and> auth_secret w' = Some s \<and>
           calls w' = calls w @ [ReadSecretFile, WriteSecretFile s] \<and>
           disk_writes w' = disk_writes w + 1"
    if "\<not> readable_512 en w"
    using fresh_secret_512 [of en] fresh_secret_hex [of en]
    by (simp add: generate_auth_key_regen [OF that] disk_writes_def is_disk_write_def
        fresh_secret_def)
  have "disk_writes (world_of (generate_auth_key en w)) \<le> disk_writes w + 1"
  proof (cases "readable_512 en w")
    case True
    then show ?thesis using adopt by simp
  next
    case False
    from regen [OF this] show ?thesis by (auto simp: world_of_def)
  qed
  with adopt content regen show ?thesis by blast
qed

theorem generate_auth_key_provisioning_witness:
  "generate_auth_key env0 (world0\<lparr>secret_file := Some (replicate 512 CHR ''a'')\<rparr>) =
     Ret [None] (world0\<lparr>secret_file := Some (replicate 512 CHR ''a''),
                        auth_secret := Some (replicate 512 CHR ''a''),
                        calls := [ReadSecretFile]\<rparr>)
   \<and> (\<exists>s w'. generate_auth_key env0 world0 = Ret [None] w' \<and> length s = 512 \<and>
         list_all is_hex_char s \<and> auth_secret w' = Some s \<and>
         calls w' = [ReadSecretFile, WriteSecretFile s] \<and> disk_writes w' = 1)"
proof -
  have a: "readable_512 env0 (world0\<lparr>secret_file := Some (replicate 512 CHR ''a'')\<rparr>)"
    by (simp add: readable_512_def env0_def world0_def)
  have b: "\<not> readable_512 env0 world0"
    by (simp add: readable_512_def env0_def world0_def)
  have c: "disk_writes world0 = 0" "calls world0 = []"
    by (simp_all add: disk_writes_def world0_def)
  from generate_auth_key_provisioning [of env0 "world0\<lparr>secret_file := Some (replicate 512 CHR ''a'')\<rparr>"] a
  have "generate_auth_key env0 (world0\<lparr>secret_file := Some (replicate 512 CHR ''a'')\<rparr>) =
     Ret [None] (world0\<lparr>secret_file := Some (replicate 512 CHR ''a''),
                        auth_secret := Some (replicate 512 CHR ''a''),
                        calls := [ReadSecretFile]\<rparr>)"
    by (simp add: world0_def)
  moreover from generate_auth_key_provisioning [of env0 world0] b c
  have "\<exists>s w'. generate_auth_key env0 world0 = Ret [None] w' \<and> length s = 512 \<and>
         list_all is_hex_char s \<and> auth_secret w' = Some s \<and>
         calls w' = [ReadSecretFile, WriteSecretFile s] \<and> disk_writes w' = 1"
    by auto
  ultimately show ?thesis by blast
qed

text \<open>
  C10. Whatever the file system answers, the stage invokes its continuation once and
  without an error, and the engine then holds a secret of 512 characters. When the secret
  was generated it is a string of 512 hexadecimal digits, also when writing it back
  failed; the file is then as it was before, so the next start generates another one.
\<close>

theorem generate_auth_key_never_fails:
  "\<exists>w' s. generate_auth_key en w = Ret [None] w' \<and> auth_secret w' = Some s \<and> length s = 512 \<and>
     (\<not> readable_512 en w \<longrightarrow>
        s = toHex (randomBytes (entropy en) 256) \<and> list_all is_hex_char s \<and>
        (outcome en (calls w @ [ReadSecretFile]) (WriteSecretFile s) \<noteq> None \<longrightarrow>
           secret_file w' = secret_file w))"
proof (cases "readable_512 en w")
  case True
  then obtain c where "secret_file w = Some c" "length c = 512"
    by (auto simp: readable_512_def split: option.splits)
  with True show ?thesis by (simp add: generate_auth_key_adopt)
next
  case False
  then show ?thesis
    using fresh_secret_512 [of en] fresh_secret_hex [of en]
    by (simp add: generate_auth_key_regen fresh_secret_def)
qed

theorem generate_auth_key_never_fails_witness:
  "\<exists>w' s. generate_auth_key env_read_only world0 = Ret [None] w' \<and> auth_secret w' = Some s \<and>
      length s = 512 \<and> list_all is_hex_char s \<and> secret_file w' = None"
proof -
  have b: "\<not> readable_512 env_read_only world0"
    by (simp add: readable_512_def world0_def)
  have c: "outcome env_read_only (calls world0 @ [ReadSecretFile]) (WriteSecretFile s) \<noteq> None" for s
    by (simp add: env_read_only_def)
  have d: "secret_file world0 = None"
    by (simp add: world0_def)
  from generate_auth_key_never_fails [of env_read_only world0] b c d
  show ?thesis by auto
qed

section \<open>Time synchronisation\<close>



lemma setTime_unreadable:
  "\<not> time_synced w \<Longrightarrow> setTime None w = (Some ''TypeError'', w\<lparr>time_synced := True\<rparr>)"
  by (simp add: setTime_def)








section \<open>Not-found routing\<close>

lemma split_str_parts:
  "\<exists>ss. split_str c s = takeWhile (\<lambda>x. x \<noteq> c) s # ss
        \<and> concat (map (\<lambda>p. c # p) ss) = dropWhile (\<lambda>x. x \<noteq> c) s"
proof (induction s)
  case Nil
  then show ?case by simp
next
  case (Cons x xs)
  then obtain ss where ss: "split_str c xs = takeWhile (\<lambda>x. x \<noteq> c) xs # ss"
      "concat (map (\<lambda>p. c # p) ss) = dropWhile (\<lambda>x. x \<noteq> c) xs"
    by blast
  show ?case
  proof (cases "x = c")
    case True
    have "takeWhile (\<lambda>x. x \<noteq> c) xs @ dropWhile (\<lambda>x. x \<noteq> c) xs = xs" by simp
    with True ss show ?thesis by simp
  next
    case False
    with ss show ?thesis by simp
  qed
qed

lemma join_str_Some:
  "join_str c (a # map Some ss) = or_str a [] @ concat (map (\<lambda>p. c # p) ss)"
proof (induction ss arbitrary: a)
  case Nil
  then show ?case by simp
next
  case (Cons s ss)
  have "or_str (Some s) [] = s" by (simp add: or_str_def)
  with Cons [of "Some s"] show ?case by simp
qed

text \<open>
  C4. The handler always answers with a redirect, never with a bare status. For a request
  path that starts with a slash, with \<open>token\<close> the persisted version: when the segment
  after the leading slash differs from the token, the redirect goes to the same path with
  that segment replaced by the token; when it equals the token, the redirect goes to the
  root path.
\<close>

theorem not_found_redirects:
  "(\<exists>p. not_found w url = Redirect p)
   \<and> (cfg_version w = Some token \<longrightarrow> url = CHR ''/'' # path \<longrightarrow>
        (takeWhile (\<lambda>x. x \<noteq> CHR ''/'') path \<noteq> token \<longrightarrow>
           not_found w url = Redirect (CHR ''/'' # token @ dropWhile (\<lambda>x. x \<noteq> CHR ''/'') path))
        \<and> (takeWhile (\<lambda>x. x \<noteq> CHR ''/'') path = token \<longrightarrow> not_found w url = Redirect ''/''))"
proof (intro conjI impI)
  show "\<exists>p. not_found w url = Redirect p"
    by (simp add: not_found_def Let_def)
next
  assume v: "cfg_version w = Some token" and u: "url = CHR ''/'' # path"
  obtain ss where ss: "split_str CHR ''/'' path = takeWhile (\<lambda>x. x \<noteq> CHR ''/'') path # ss"
      "concat (map (\<lambda>p. CHR ''/'' # p) ss) = dropWhile (\<lambda>x. x \<noteq> CHR ''/'') path"
    using split_str_parts by blast
  have arr: "split_str CHR ''/'' url = [] # takeWhile (\<lambda>x. x \<noteq> CHR ''/'') path # ss"
    using u ss(1) by simp
  have j: "join_str CHR ''/'' (Some [] # Some token # map Some ss)
            = CHR ''/'' # token @ dropWhile (\<lambda>x. x \<noteq> CHR ''/'') path"
    using join_str_Some [of "CHR ''/''" "Some token" ss] ss(2)
    by (simp add: or_str_def)
  {
    assume "takeWhile (\<lambda>x. x \<noteq> CHR ''/'') path \<noteq> token"
    then show "not_found w url =
        Redirect (CHR ''/'' # token @ dropWhile (\<lambda>x. x \<noteq> CHR ''/'') path)"
      using v arr j by (simp add: not_found_def js_index_def splice_1_1_def Let_def)
  }
  {
    assume "takeWhile (\<lambda>x. x \<noteq> CHR ''/'') path = token"
    then show "not_found w url = Redirect ''/''"
      using v arr by (simp add: not_found_def js_index_def Let_def)
  }
qed

theorem not_found_redirects_witness:
  "not_found (world0\<lparr>cfg_version := Some ''ABC''\<rparr>) ''/XYZ/app/foo'' = Redirect ''/ABC/app/foo''
   \<and> not_found (world0\<lparr>cfg_version := Some ''ABC''\<rparr>) ''/ABC/bogus'' = Redirect ''/''"
  using not_found_redirects [of "world0\<lparr>cfg_version := Some ''ABC''\<rparr>" "''/XYZ/app/foo''" "''ABC''" "''XYZ/app/foo''"]
    not_found_redirects [of "world0\<lparr>cfg_version := Some ''ABC''\<rparr>" "''/ABC/bogus''" "''ABC''" "''ABC/bogus''"]
  by (simp add: world0_def)

section \<open>The message relay\<close>

text \<open>
  On the dashboard as its constructor leaves it, with no machine handle, a \<open>getMachine\<close>
  message makes the handler raise when it reads \<open>this.machine.ip\<close>, and no reply is sent.
\<close>

theorem getMachine_without_machine_counterexample:
  "on_message None \<lparr>source = 3, data = JObj [(''getMachine'', JBool True)]\<rparr> new_Dashboard =
     (Some ''TypeError'', new_Dashboard)
   \<and> d_machine new_Dashboard = None
   \<and> effects (snd (on_message None \<lparr>source = 3, data = JObj [(''getMachine'', JBool True)]\<rparr>
        new_Dashboard)) = []"
  by (simp add: on_message_def get_field_def new_Dashboard_def)

text \<open>
  C8, as the code has it. A message whose \<open>getMachine\<close> is \<open>true\<close> and whose \<open>showDRO\<close> and
  \<open>job\<close> are undefined, received while a machine handle is set, makes the relay post
  exactly one message, to the frame the message came from, and its payload is the object
  with the two fields \<open>ip\<close> and \<open>port\<close> of the machine handle and nothing else; nothing else
  of the dashboard changes. Received while no machine handle is set, it makes the handler
  raise a TypeError, and nothing is posted or changed.
\<close>

theorem getMachine_reply:
  "get_field (data e) ''getMachine'' = Some (JBool True) \<longrightarrow>
   get_field (data e) ''showDRO'' = Some Undefined \<longrightarrow>
   get_field (data e) ''job'' = Some Undefined \<longrightarrow>
     (d_machine d = Some m \<longrightarrow>
        on_message r e d =
          (None, d\<lparr>effects := effects d @
             [PostMessage (source e) (JObj [(''ip'', m_ip m), (''port'', m_port m)]) ''*'']\<rparr>))
     \<and> (d_machine d = None \<longrightarrow> on_message r e d = (Some ''TypeError'', d))"
  by (simp add: on_message_def effect_def)

theorem getMachine_reply_witness:
  "on_message None \<lparr>source = 3, data = JObj [(''getMachine'', JBool True)]\<rparr>
      (new_Dashboard\<lparr>d_machine := Some machine0, d_ui := True\<rparr>) =
     (None, new_Dashboard\<lparr>d_machine := Some machine0, d_ui := True,
        effects := [PostMessage 3 (JObj [(''ip'', JStr ''192.168.1.10''), (''port'', JNum 9876)]) ''*'']\<rparr>)
   \<and> on_message None \<lparr>source = 3, data = JObj [(''getMachine'', JBool True)]\<rparr> new_Dashboard =
     (Some ''TypeError'', new_Dashboard)"
  using getMachine_reply [of "\<lparr>source = 3, data = JObj [(''getMachine'', JBool True)]\<rparr>"
      "new_Dashboard\<lparr>d_machine := Some machine0, d_ui := True\<rparr>" machine0 None]
    getMachine_reply [of "\<lparr>source = 3, data = JObj [(''getMachine'', JBool True)]\<rparr>"
      new_Dashboard machine0 None]
  by (simp add: get_field_def new_Dashboard_def machine0_def)

text \<open>
  On a dashboard without a machine handle a \<open>showDRO\<close> message is not a no-op: the class
  that opens the panel is added to \<open>#main\<close> and \<open>resizedoc\<close> is called.
\<close>

theorem showDRO_without_machine_counterexample:
  "on_message None \<lparr>source = 3, data = JObj [(''showDRO'', JBool True)]\<rparr> new_Dashboard =
     (None, new_Dashboard\<lparr>main_classes := [''offcanvas-overlap-left''], effects := [Resizedoc]\<rparr>)
   \<and> d_machine new_Dashboard = None
   \<and> snd (on_message None \<lparr>source = 3, data = JObj [(''showDRO'', JBool True)]\<rparr> new_Dashboard)
       \<noteq> new_Dashboard"
  by (simp add: on_message_def get_field_def new_Dashboard_def openRightMenu_def addClass_def
      effect_def)

lemma openRightMenu_class: "menu_class \<in> set (main_classes (snd (openRightMenu d)))"
  by (simp add: openRightMenu_def addClass_def effect_def menu_class_def Let_def)

lemma closeRightMenu_class: "menu_class \<notin> set (main_classes (snd (closeRightMenu d)))"
  by (simp add: closeRightMenu_def removeClass_def effect_def menu_class_def Let_def)

text \<open>
  C9, as the code has it. A message with \<open>showDRO\<close> \<open>true\<close> leaves the panel open (the
  class is on \<open>#main\<close>) and one with \<open>showDRO\<close> \<open>false\<close> leaves it closed, with or without
  a machine handle. Without a machine handle the handler still changes the class and calls
  \<open>resizedoc\<close>; what it leaves out is only the call on the \<open>ui\<close> object.
\<close>

theorem showDRO_opens_and_closes:
  "(get_field (data e) ''showDRO'' = Some (JBool True) \<longrightarrow>
      menu_class \<in> set (main_classes (snd (on_message r e d)))
      \<and> (d_machine d = None \<longrightarrow>
           on_message r e d =
             (None, d\<lparr>main_classes := addClass menu_class (main_classes d),
                       effects := effects d @ [Resizedoc]\<rparr>)))
   \<and> (get_field (data e) ''showDRO'' = Some (JBool False) \<longrightarrow>
      menu_class \<notin> set (main_classes (snd (on_message r e d)))
      \<and> (d_machine d = None \<longrightarrow>
           on_message r e d =
             (None, d\<lparr>main_classes := removeClass menu_class (main_classes d),
                       effects := effects d @ [Resizedoc]\<rparr>)))"
proof (intro conjI impI)
  assume t: "get_field (data e) ''showDRO'' = Some (JBool True)"
  then have o: "on_message r e d = openRightMenu d" by (simp add: on_message_def)
  show "menu_class \<in> set (main_classes (snd (on_message r e d)))"
    by (simp add: o openRightMenu_class)
  show "on_message r e d =
      (None, d\<lparr>main_classes := addClass menu_class (main_classes d),
                effects := effects d @ [Resizedoc]\<rparr>)" if "d_machine d = None"
    using that by (simp add: o openRightMenu_def effect_def menu_class_def)
next
  assume f: "get_field (data e) ''showDRO'' = Some (JBool False)"
  then have c: "on_message r e d = closeRightMenu d" by (simp add: on_message_def)
  show "menu_class \<notin> set (main_classes (snd (on_message r e d)))"
    by (simp add: c closeRightMenu_class)
  show "on_message r e d =
      (None, d\<lparr>main_classes := removeClass menu_class (main_classes d),
                effects := effects d @ [Resizedoc]\<rparr>)" if "d_machine d = None"
    using that by (simp add: c closeRightMenu_def effect_def menu_class_def)
qed

theorem showDRO_opens_and_closes_witness:
  "on_message None \<lparr>source = 3, data = JObj [(''showDRO'', JBool True)]\<rparr> new_Dashboard =
     (None, new_Dashboard\<lparr>main_classes := [menu_class], effects := [Resizedoc]\<rparr>)
   \<and> on_message None \<lparr>source = 3, data = JObj [(''showDRO'', JBool False)]\<rparr>
        (new_Dashboard\<lparr>main_classes := [menu_class]\<rparr>) =
     (None, new_Dashboard\<lparr>main_classes := [], effects := [Resizedoc]\<rparr>)"
  using showDRO_opens_and_closes [of "\<lparr>source = 3, data = JObj [(''showDRO'', JBool True)]\<rparr>"
      None new_Dashboard]
    showDRO_opens_and_closes [of "\<lparr>source = 3, data = JObj [(''showDRO'', JBool False)]\<rparr>"
      None "new_Dashboard\<lparr>main_classes := [menu_class]\<rparr>"]
  by (simp add: get_field_def new_Dashboard_def addClass_def removeClass_def)

section \<open>The sequencer\<close>

lemma async_series_append:
  "async_series pre en w = (Completed, ns, w1) \<Longrightarrow>
   async_series (pre @ post) en w =
     (case async_series post en w1 of (r, ms, w2) \<Rightarrow> (r, ns @ ms, w2))"
proof (induction pre arbitrary: w ns)
  case Nil
  then show ?case by (simp split: prod.splits)
next
  case (Cons a pre)
  obtain n f where a: "a = (n, f)" by (cases a)
  from Cons.prems a obtain w' ns' where
    f: "f en w = Ret [None] w'" and r: "async_series pre en w' = (Completed, ns', w1)"
    and ns: "ns = n # ns'"
    by (auto split: stage_result.splits list.splits option.splits prod.splits)
  from Cons.IH [OF r] f a ns show ?case
    by (simp split: prod.splits)
qed

lemma runs_ok_series:
  "runs_ok sts en w w' \<Longrightarrow> async_series sts en w = (Completed, map fst sts, w')"
  by (induction rule: runs_ok.induct) simp_all

lemma series_runs_ok:
  "async_series sts en w = (Completed, ns, w') \<Longrightarrow> runs_ok sts en w w'"
proof (induction sts arbitrary: w ns)
  case Nil
  then show ?case by (simp add: runs_ok_Nil)
next
  case (Cons a sts)
  obtain n f where a: "a = (n, f)" by (cases a)
  from Cons.prems a obtain w1 ns' where
    f: "f en w = Ret [None] w1" and r: "async_series sts en w1 = (Completed, ns', w')"
    by (auto split: stage_result.splits list.splits option.splits prod.splits)
  from Cons.IH [OF r] f a show ?case by (simp add: runs_ok_Cons)
qed

lemma series_fails_at:
  assumes "runs_ok pre en w w1" and "f en w1 = Ret [Some err] w2"
  shows "async_series (pre @ (n, f) # post) en w = (Failed err, map fst pre @ [n], w2)"
  using async_series_append [OF runs_ok_series [OF assms(1)], of "(n, f) # post"] assms(2)
  by simp

lemma series_Failed_origin:
  "async_series sts en w = (Failed err, ns, w') \<Longrightarrow>
   \<exists>pre n f post w1. sts = pre @ (n, f) # post \<and> ns = map fst pre @ [n] \<and>
      runs_ok pre en w w1 \<and> f en w1 = Ret [Some err] w'"
proof (induction sts arbitrary: w ns)
  case Nil
  then show ?case by simp
next
  case (Cons a sts)
  obtain n f where a: "a = (n, f)" by (cases a)
  from Cons.prems a consider
      (here) "f en w = Ret [Some err] w'" "ns = [n]"
    | (later) w1 ns' where "f en w = Ret [None] w1"
        "async_series sts en w1 = (Failed err, ns', w')" "ns = n # ns'"
    by (auto split: stage_result.splits list.splits option.splits prod.splits)
  then show ?case
  proof cases
    case here
    with a have "a # sts = [] @ (n, f) # sts \<and> ns = map fst [] @ [n] \<and>
        runs_ok [] en w w \<and> f en w = Ret [Some err] w'"
      by (simp add: runs_ok_Nil)
    then show ?thesis by blast
  next
    case later
    from Cons.IH [OF later(2)] obtain pre m g post w2 where
      p: "sts = pre @ (m, g) # post" "ns' = map fst pre @ [m]" "runs_ok pre en w1 w2"
        "g en w2 = Ret [Some err] w'"
      by blast
    have "runs_ok ((n, f) # pre) en w w2"
      using later(1) p(3) by (rule runs_ok_Cons)
    with p later(3) a have "a # sts = ((n, f) # pre) @ (m, g) # post \<and>
        ns = map fst ((n, f) # pre) @ [m] \<and> runs_ok ((n, f) # pre) en w w2 \<and>
        g en w2 = Ret [Some err] w'"
      by simp
    then show ?thesis by blast
  qed
qed

lemma runs_ok_ConsD:
  assumes "runs_ok ((n, f) # rest) en w w'"
  shows "\<exists>w1. f en w = Ret [None] w1 \<and> runs_ok rest en w1 w'"
proof -
  from runs_ok_series [OF assms] obtain w1 ns where
    "f en w = Ret [None] w1" "async_series rest en w1 = (Completed, ns, w')"
    by (auto split: stage_result.splits list.splits option.splits prod.splits)
  then show ?thesis using series_runs_ok by blast
qed

lemma runs_ok_mid:
  "runs_ok (pre @ (n, f) # post) en w w' \<Longrightarrow> \<exists>w1 w2. f en w1 = Ret [None] w2"
proof (induction pre arbitrary: w)
  case Nil
  then show ?case using runs_ok_ConsD [of n f post en w w'] by auto
next
  case (Cons a pre)
  obtain m g where a: "a = (m, g)" by (cases a)
  from Cons.prems a obtain w1 where "runs_ok (pre @ (n, f) # post) en w1 w'"
    using runs_ok_ConsD [of m g "pre @ (n, f) # post" en w w'] by auto
  then show ?case by (rule Cons.IH)
qed

text \<open>
  C2, as the code has it. In a run in which each stage so far has called back exactly once:
  when the stages before some stage call back without error and that stage calls back with
  an error, \<open>start\<close> invokes its caller's callback once, with that error as the only
  argument (the name of the stage is not passed), and the stages started are exactly those
  up to the failing one: no later stage runs, and the world is as the failing stage left
  it. When every stage calls back once and without error, the callback is invoked once,
  with \<open>null\<close> and the engine in its final state, and every stage was started.
\<close>

theorem start_failure_contract:
  "(engine_stages = pre @ (n, f) # post \<longrightarrow> runs_ok pre en w w1 \<longrightarrow>
      f en w1 = Ret [Some err] w2 \<longrightarrow>
      start True en w = (Invoked [AErr err], map fst pre @ [n], w2))
   \<and> (runs_ok engine_stages en w w' \<longrightarrow>
        start True en w = (Invoked [ANull, AEngine w'], map fst engine_stages, w'))"
proof (intro conjI impI)
  assume "engine_stages = pre @ (n, f) # post" "runs_ok pre en w w1"
    "f en w1 = Ret [Some err] w2"
  then show "start True en w = (Invoked [AErr err], map fst pre @ [n], w2)"
    using series_fails_at [of pre en w w1 f err w2 n post]
    by (simp add: start_def)
next
  assume "runs_ok engine_stages en w w'"
  then show "start True en w = (Invoked [ANull, AEngine w'], map fst engine_stages, w')"
    by (simp add: start_def runs_ok_series)
qed

text \<open>
  When the first stage fails, the callback receives the error and nothing else: the name
  of the stage is not among its arguments.
\<close>

theorem start_failure_counterexample:
  "start True env_no_access world0 =
     (Invoked [AErr ''EACCES''], [''setup_application''],
      world0\<lparr>calls := [CreateDataDirectories]\<rparr>)
   \<and> AStr ''setup_application'' \<notin> set [AErr ''EACCES'']"
  by (simp add: start_def engine_stages_def setup_application_def ask_def call_def
      env_no_access_def env0_def world0_def)

lemmas stage_defs = setup_application_def load_engine_config_def check_engine_config_def
  EngineConfigFirstTime_def load_profiles_def load_users_def profile_shim_def
  get_fabmo_version_def getVersion_def clear_approot_def create_data_directories_def
  apply_engine_config_def setup_database_def clean_database_def connect_def
  launch_detection_daemon_def load_machine_config_def set_units_def load_driver_config_def
  get_g2_version_def g2_shim_def load_opensbp_commands_def load_opensbp_config_def
  apply_machine_config_def configure_dashboard_def load_apps_def load_macros_def
  load_instance_config_def apply_instance_config_def generate_auth_key_def
  readFile_secret_def writeFile_secret_def start_server_def ask_def call_def doshell_def

lemma gated_results:
  assumes "\<not> isConnected en" "e_machine w"
  shows "set_units en w = Ret [None] w"
    and "load_driver_config en w = Ret [None, None] (call (ConfigureDriver False) w)"
    and "get_g2_version en w = Ret [None] w"
    and "load_opensbp_commands en w = Ret [None] w"
  using assms
  by (simp_all add: set_units_def load_driver_config_def get_g2_version_def
      load_opensbp_commands_def)


lemma no_driver_call_1:
  "\<not> isConnected en \<Longrightarrow> driver_calls (world_of (setup_application en w)) = driver_calls w"
  "\<not> isConnected en \<Longrightarrow> driver_calls (world_of (load_engine_config en w)) = driver_calls w"
  "\<not> isConnected en \<Longrightarrow> driver_calls (world_of (check_engine_config en w)) = driver_calls w"
  "\<not> isConnected en \<Longrightarrow> driver_calls (world_of (load_profiles en w)) = driver_calls w"
  "\<not> isConnected en \<Longrightarrow> driver_calls (world_of (load_users en w)) = driver_calls w"
  "\<not> isConnected en \<Longrightarrow> driver_calls (world_of (profile_shim en w)) = driver_calls w"
  "\<not> isConnected en \<Longrightarrow> driver_calls (world_of (get_fabmo_version en w)) = driver_calls w"
  "\<not> isConnected en \<Longrightarrow> driver_calls (world_of (clear_approot en w)) = driver_calls w"
  "\<not> isConnected en \<Longrightarrow> driver_calls (world_of (create_data_directories en w)) = driver_calls w"
  "\<not> isConnected en \<Longrightarrow> driver_calls (world_of (apply_engine_config en w)) = driver_calls w"
  by (simp_all add: setup_application_def load_engine_config_def check_engine_config_def
      EngineConfigFirstTime_def load_profiles_def load_users_def profile_shim_def
      get_fabmo_version_def getVersion_def clear_approot_def create_data_directories_def
      apply_engine_config_def ask_def call_def doshell_def
      driver_calls_def is_driver_call_def world_of_def Let_def
      split: option.splits version_json.splits)

lemma no_driver_call_2:
  "\<not> isConnected en \<Longrightarrow> driver_calls (world_of (setup_database en w)) = driver_calls w"
  "\<not> isConnected en \<Longrightarrow> driver_calls (world_of (clean_database en w)) = driver_calls w"
  "\<not> isConnected en \<Longrightarrow> driver_calls (world_of (connect en w)) = driver_calls w"
  "\<not> isConnected en \<Longrightarrow> driver_calls (world_of (launch_detection_daemon en w)) = driver_calls w"
  "\<not> isConnected en \<Longrightarrow> driver_calls (world_of (load_machine_config en w)) = driver_calls w"
  "\<not> isConnected en \<Longrightarrow> driver_calls (world_of (set_units en w)) = driver_calls w"
  "\<not> isConnected en \<Longrightarrow> driver_calls (world_of (load_driver_config en w)) = driver_calls w"
  "\<not> isConnected en \<Longrightarrow> driver_calls (world_of (get_g2_version en w)) = driver_calls w"
  "\<not> isConnected en \<Longrightarrow> driver_calls (world_of (g2_shim en w)) = driver_calls w"
  "\<not> isConnected en \<Longrightarrow> driver_calls (world_of (load_opensbp_commands en w)) = driver_calls w"
  by (simp_all add: setup_database_def clean_database_def connect_def
      launch_detection_daemon_def load_machine_config_def set_units_def load_driver_config_def
      get_g2_version_def g2_shim_def load_opensbp_commands_def ask_def call_def
      driver_calls_def is_driver_call_def world_of_def Let_def)

lemma no_driver_call_3:
  "\<not> isConnected en \<Longrightarrow> driver_calls (world_of (load_opensbp_config en w)) = driver_calls w"
  "\<not> isConnected en \<Longrightarrow> driver_calls (world_of (apply_machine_config en w)) = driver_calls w"
  "\<not> isConnected en \<Longrightarrow> driver_calls (world_of (configure_dashboard en w)) = driver_calls w"
  "\<not> isConnected en \<Longrightarrow> driver_calls (world_of (load_apps en w)) = driver_calls w"
  "\<not> isConnected en \<Longrightarrow> driver_calls (world_of (load_macros en w)) = driver_calls w"
  "\<not> isConnected en \<Longrightarrow> driver_calls (world_of (load_instance_config en w)) = driver_calls w"
  "\<not> isConnected en \<Longrightarrow> driver_calls (world_of (apply_instance_config en w)) = driver_calls w"
  "\<not> isConnected en \<Longrightarrow> driver_calls (world_of (generate_auth_key en w)) = driver_calls w"
  "\<not> isConnected en \<Longrightarrow> driver_calls (world_of (start_server en w)) = driver_calls w"
  by (simp_all add: load_opensbp_config_def apply_machine_config_def configure_dashboard_def
      load_apps_def load_macros_def load_instance_config_def apply_instance_config_def
      generate_auth_key_def readFile_secret_def writeFile_secret_def start_server_def
      ask_def call_def driver_calls_def is_driver_call_def world_of_def Let_def
      split: option.splits)

lemma stage_no_driver_call:
  assumes "(n, f) \<in> set engine_stages" "\<not> isConnected en"
  shows "driver_calls (world_of (f en w)) = driver_calls w"
  using assms unfolding engine_stages_def
  by (auto simp: no_driver_call_1 no_driver_call_2 no_driver_call_3)

lemma gated_never_fail:
  assumes "(n, f) \<in> set engine_stages" "n \<in> set gated_names" "\<not> isConnected en"
  shows "f en w \<noteq> Ret (Some err # extra) w'"
  using assms unfolding engine_stages_def gated_names_def
  by (auto simp: set_units_def load_driver_config_def get_g2_version_def
      load_opensbp_commands_def split: if_splits)

lemma series_no_driver_call:
  assumes "\<not> isConnected en" "set sts \<subseteq> set engine_stages"
  shows "driver_calls (snd (snd (async_series sts en w))) = driver_calls w"
  using assms(2)
proof (induction sts arbitrary: w)
  case Nil
  then show ?case by simp
next
  case (Cons a sts)
  obtain n f where a: "a = (n, f)" by (cases a)
  with Cons.prems have mem: "(n, f) \<in> set engine_stages" and sub: "set sts \<subseteq> set engine_stages"
    by simp_all
  have step: "driver_calls (world_of (f en w)) = driver_calls w"
    using stage_no_driver_call [OF mem assms(1)] .
  show ?case
  proof (cases "\<exists>w1. f en w = Ret [None] w1")
    case True
    then obtain w1 where f: "f en w = Ret [None] w1" by blast
    with step have "driver_calls w1 = driver_calls w" by (simp add: world_of_def)
    with a f Cons.IH [OF sub, of w1] show ?thesis by (auto split: prod.splits)
  next
    case False
    then have "snd (snd (async_series (a # sts) en w)) = world_of (f en w)"
      using a by (auto simp: world_of_def split: stage_result.splits list.splits option.splits)
    with step show ?thesis by simp
  qed
qed

lemma succeedsD: "succeeds r \<Longrightarrow> r = Ret [None] (world_of r)"
  by (auto simp: succeeds_def world_of_def split: stage_result.splits list.splits option.splits)

lemma runs_ok_append:
  "runs_ok xs en w w1 \<Longrightarrow> runs_ok ys en w1 w2 \<Longrightarrow> runs_ok (xs @ ys) en w w2"
  by (induction rule: runs_ok.induct) (auto intro: runs_ok.intros)

lemma runs_ok_invariant:
  assumes step: "\<And>n f w. (n, f) \<in> set sts \<Longrightarrow> I w \<Longrightarrow>
      succeeds (f en w) \<and> I (world_of (f en w))"
    and "I w"
  shows "\<exists>w'. runs_ok sts en w w' \<and> I w'"
  using assms
proof (induction sts arbitrary: w)
  case Nil
  then show ?case by (auto intro: runs_ok_Nil)
next
  case (Cons a sts)
  obtain n f where a: "a = (n, f)" by (cases a)
  have s: "succeeds (f en w)" and i: "I (world_of (f en w))"
    using Cons.prems(1) [of n f w] Cons.prems(2) a by simp_all
  have r: "f en w = Ret [None] (world_of (f en w))"
    using succeedsD [OF s] .
  have "\<exists>w'. runs_ok sts en (world_of (f en w)) w' \<and> I w'"
  proof (rule Cons.IH [OF _ i])
    fix m g v
    assume "(m, g) \<in> set sts" "I v"
    then show "succeeds (g en v) \<and> I (world_of (g en v))"
      using Cons.prems(1) [of m g v] by simp
  qed
  then obtain w' where "runs_ok sts en (world_of (f en w)) w'" "I w'" by blast
  with r a show ?case by (auto intro: runs_ok_Cons)
qed

lemma ok_1:
  assumes "all_collaborators_succeed en" "glob_files en \<noteq> None"
  shows "succeeds (setup_application en w)"
    and "succeeds (load_engine_config en w)"
    and "succeeds (check_engine_config en w)"
    and "succeeds (load_profiles en w)"
    and "succeeds (load_users en w)"
    and "succeeds (profile_shim en w)"
    and "succeeds (get_fabmo_version en w) \<and> e_version (world_of (get_fabmo_version en w)) \<noteq> None"
  using assms
  by (auto simp: all_collaborators_succeed_def succeeds_def world_of_def
      setup_application_def load_engine_config_def check_engine_config_def
      EngineConfigFirstTime_def load_profiles_def load_users_def profile_shim_def
      get_fabmo_version_def getVersion_def ask_def call_def doshell_def Let_def
      split: version_json.splits)

lemma ok_2:
  assumes "all_collaborators_succeed en" "e_version w \<noteq> None"
  shows "succeeds (clear_approot en w) \<and> e_version (world_of (clear_approot en w)) \<noteq> None"
    and "succeeds (create_data_directories en w)
         \<and> e_version (world_of (create_data_directories en w)) \<noteq> None"
    and "succeeds (apply_engine_config en w)
         \<and> e_version (world_of (apply_engine_config en w)) \<noteq> None"
    and "succeeds (setup_database en w) \<and> e_version (world_of (setup_database en w)) \<noteq> None"
    and "succeeds (clean_database en w) \<and> e_version (world_of (clean_database en w)) \<noteq> None"
    and "succeeds (connect en w) \<and> e_version (world_of (connect en w)) \<noteq> None"
    and "succeeds (launch_detection_daemon en w)
         \<and> e_version (world_of (launch_detection_daemon en w)) \<noteq> None"
    and "succeeds (load_machine_config en w) \<and> e_machine (world_of (load_machine_config en w))"
  using assms
  by (auto simp: all_collaborators_succeed_def succeeds_def world_of_def
      clear_approot_def create_data_directories_def apply_engine_config_def
      setup_database_def clean_database_def connect_def launch_detection_daemon_def
      load_machine_config_def ask_def call_def Let_def)

lemma ok_3:
  assumes "all_collaborators_succeed en" "isConnected en" "e_machine w"
  shows "succeeds (set_units en w) \<and> e_machine (world_of (set_units en w))"
    and "succeeds (load_driver_config en w) \<and> e_machine (world_of (load_driver_config en w))"
    and "succeeds (get_g2_version en w) \<and> e_machine (world_of (get_g2_version en w))"
    and "succeeds (g2_shim en w) \<and> e_machine (world_of (g2_shim en w))"
    and "succeeds (load_opensbp_commands en w)
         \<and> e_machine (world_of (load_opensbp_commands en w))"
    and "succeeds (load_opensbp_config en w) \<and> e_machine (world_of (load_opensbp_config en w))"
    and "succeeds (apply_machine_config en w)
         \<and> e_machine (world_of (apply_machine_config en w))"
    and "succeeds (configure_dashboard en w) \<and> e_machine (world_of (configure_dashboard en w))"
    and "succeeds (load_apps en w) \<and> e_machine (world_of (load_apps en w))"
    and "succeeds (load_macros en w) \<and> e_machine (world_of (load_macros en w))"
    and "succeeds (load_instance_config en w)
         \<and> e_machine (world_of (load_instance_config en w))"
    and "succeeds (apply_instance_config en w)
         \<and> e_machine (world_of (apply_instance_config en w))"
  using assms
  by (auto simp: all_collaborators_succeed_def succeeds_def world_of_def
      set_units_def load_driver_config_def get_g2_version_def g2_shim_def
      load_opensbp_commands_def load_opensbp_config_def apply_machine_config_def
      configure_dashboard_def load_apps_def load_macros_def load_instance_config_def
      apply_instance_config_def ask_def call_def Let_def)

lemma ok_4:
  shows "succeeds (generate_auth_key en w)
         \<and> auth_secret (world_of (generate_auth_key en w)) \<noteq> None"
    and "auth_secret w \<noteq> None \<Longrightarrow> succeeds (start_server en w)"
  by (auto simp: succeeds_def world_of_def generate_auth_key_def readFile_secret_def
      writeFile_secret_def start_server_def ask_def call_def Let_def or_str_def
      split: option.splits)

lemma runs_ok_single: "succeeds (f en w) \<Longrightarrow> runs_ok [(n, f)] en w (world_of (f en w))"
  using succeedsD [of "f en w"] by (auto intro: runs_ok.intros)

text \<open>
  With the machine connected and every collaborator succeeding, each stage calls back
  once without error, so the hypothesis of the success half of C2 is met.
\<close>

lemma boot_connected_completes:
  assumes c: "all_collaborators_succeed en" and d: "isConnected en"
    and g: "glob_files en \<noteq> None"
  shows "\<exists>w'. runs_ok engine_stages en w w'"
proof -
  let ?A = "[(''setup_application'', setup_application),
      (''load_engine_config'', load_engine_config),
      (''check_engine_config'', check_engine_config),
      (''load_profiles'', load_profiles),
      (''load_users'', load_users),
      (''profile_shim'', profile_shim)]"
  let ?B = "[(''clear_approot'', clear_approot),
      (''create_data_directories'', create_data_directories),
      (''apply_engine_config'', apply_engine_config),
      (''setup_database'', setup_database),
      (''clean_database'', clean_database),
      (''connect'', connect),
      (''launch_detection_daemon'', launch_detection_daemon)]"
  let ?C = "[(''set_units'', set_units),
      (''load_driver_config'', load_driver_config),
      (''get_g2_version'', get_g2_version),
      (''g2_shim'', g2_shim),
      (''load_opensbp_commands'', load_opensbp_commands),
      (''load_opensbp_config'', load_opensbp_config),
      (''apply_machine_config'', apply_machine_config),
      (''configure_dashboard'', configure_dashboard),
      (''load_apps'', load_apps),
      (''load_macros'', load_macros),
      (''load_instance_config'', load_instance_config),
      (''apply_instance_config'', apply_instance_config)]"
  have "\<exists>w'. runs_ok ?A en w w' \<and> True"
  proof (rule runs_ok_invariant [where I = "\<lambda>v::world. True"])
    fix n f and v :: world
    assume "(n, f) \<in> set ?A"
    then show "succeeds (f en v) \<and> True"
      using ok_1 [OF c g, of v] by auto
  qed simp
  then obtain w1 where A: "runs_ok ?A en w w1" by blast
  let ?w2 = "world_of (get_fabmo_version en w1)"
  have V: "runs_ok [(''get_fabmo_version'', get_fabmo_version)] en w1 ?w2"
    and v2: "e_version ?w2 \<noteq> None"
    using ok_1(7) [OF c g, of w1] by (simp_all add: runs_ok_single)
  have "\<exists>w'. runs_ok ?B en ?w2 w' \<and> e_version w' \<noteq> None"
  proof (rule runs_ok_invariant [where I = "\<lambda>v::world. e_version v \<noteq> None"])
    fix n f and v :: world
    assume "(n, f) \<in> set ?B" "e_version v \<noteq> None"
    then show "succeeds (f en v) \<and> e_version (world_of (f en v)) \<noteq> None"
      using ok_2 [OF c, of v] by auto
  qed (rule v2)
  then obtain w3 where B: "runs_ok ?B en ?w2 w3" and v3: "e_version w3 \<noteq> None" by blast
  let ?w4 = "world_of (load_machine_config en w3)"
  have M: "runs_ok [(''load_machine_config'', load_machine_config)] en w3 ?w4"
    and m4: "e_machine ?w4"
    using ok_2(8) [OF c v3] by (simp_all add: runs_ok_single)
  have "\<exists>w'. runs_ok ?C en ?w4 w' \<and> e_machine w'"
  proof (rule runs_ok_invariant [where I = "\<lambda>v::world. e_machine v"])
    fix n f and v :: world
    assume "(n, f) \<in> set ?C" "e_machine v"
    then show "succeeds (f en v) \<and> e_machine (world_of (f en v))"
      using ok_3 [OF c d, of v] by auto
  qed (rule m4)
  then obtain w5 where C: "runs_ok ?C en ?w4 w5" by blast
  let ?w6 = "world_of (generate_auth_key en w5)"
  have K: "runs_ok [(''generate_auth_key'', generate_auth_key)] en w5 ?w6"
    and k6: "auth_secret ?w6 \<noteq> None"
    using ok_4(1) [of en w5] by (simp_all add: runs_ok_single)
  have S: "runs_ok [(''start_server'', start_server)] en ?w6 (world_of (start_server en ?w6))"
    using ok_4(2) [OF k6] by (rule runs_ok_single)
  have e: "engine_stages =
      ?A @ [(''get_fabmo_version'', get_fabmo_version)] @ ?B
        @ [(''load_machine_config'', load_machine_config)] @ ?C
        @ [(''generate_auth_key'', generate_auth_key)] @ [(''start_server'', start_server)]"
    by (simp add: engine_stages_def)
  have "runs_ok engine_stages en w (world_of (start_server en ?w6))"
    unfolding e
    by (intro runs_ok_append [OF A] runs_ok_append [OF V] runs_ok_append [OF B]
        runs_ok_append [OF M] runs_ok_append [OF C] runs_ok_append [OF K] S)
  then show ?thesis by blast
qed

lemma start_world: "snd (snd (start b en w)) = snd (snd (async_series engine_stages en w))"
  by (simp add: start_def split: prod.splits series_outcome.splits)

text \<open>
  With the machine not connected no run of the stage list completes as a series: it cannot
  pass \<open>load_driver_config\<close>, which either raises or calls back twice. And no call reaches
  the hardware driver.
\<close>

lemma disconnected_boot_never_completes:
  assumes "\<not> isConnected en"
  shows "fst (async_series engine_stages en w) \<noteq> Completed"
proof
  assume c: "fst (async_series engine_stages en w) = Completed"
  obtain ns w' where "async_series engine_stages en w = (Completed, ns, w')"
    using c by (cases "async_series engine_stages en w") auto
  then have r: "runs_ok engine_stages en w w'" by (rule series_runs_ok)
  have e: "engine_stages = take 16 engine_stages
      @ (''load_driver_config'', load_driver_config) # drop 17 engine_stages"
    by (simp add: engine_stages_def)
  from r obtain w1 w2 where "load_driver_config en w1 = Ret [None] w2"
    using runs_ok_mid [of "take 16 engine_stages" "''load_driver_config''" load_driver_config
        "drop 17 engine_stages" en w w'] e by auto
  with assms show False by (simp add: load_driver_config_def split: if_splits)
qed

lemma disconnected_boot_no_driver_call:
  assumes "\<not> isConnected en"
  shows "driver_calls (snd (snd (start b en w))) = driver_calls w"
  using series_no_driver_call [OF assms, of engine_stages w] by (simp add: start_world)

lemma once_1:
  "calls_back_once (setup_application en w)"
  "calls_back_once (load_engine_config en w)"
  "calls_back_once (check_engine_config en w)"
  "calls_back_once (load_profiles en w)"
  "calls_back_once (load_users en w)"
  "calls_back_once (profile_shim en w)"
  "calls_back_once (get_fabmo_version en w)"
  "calls_back_once (clear_approot en w)"
  "calls_back_once (create_data_directories en w)"
  "calls_back_once (apply_engine_config en w)"
  by (simp_all add: setup_application_def load_engine_config_def check_engine_config_def
      EngineConfigFirstTime_def load_profiles_def load_users_def profile_shim_def
      get_fabmo_version_def getVersion_def clear_approot_def create_data_directories_def
      apply_engine_config_def ask_def calls_back_once_def Let_def
      split: option.splits version_json.splits)

lemma once_2:
  "calls_back_once (setup_database en w)"
  "calls_back_once (clean_database en w)"
  "calls_back_once (connect en w)"
  "calls_back_once (launch_detection_daemon en w)"
  "calls_back_once (load_machine_config en w)"
  "calls_back_once (set_units en w)"
  "isConnected en \<Longrightarrow> calls_back_once (load_driver_config en w)"
  "calls_back_once (get_g2_version en w)"
  "calls_back_once (g2_shim en w)"
  "calls_back_once (load_opensbp_commands en w)"
  by (simp_all add: setup_database_def clean_database_def connect_def
      launch_detection_daemon_def load_machine_config_def set_units_def load_driver_config_def
      get_g2_version_def g2_shim_def load_opensbp_commands_def ask_def
      calls_back_once_def Let_def split: option.splits)

lemma once_3:
  "calls_back_once (load_opensbp_config en w)"
  "calls_back_once (apply_machine_config en w)"
  "calls_back_once (configure_dashboard en w)"
  "calls_back_once (load_apps en w)"
  "calls_back_once (load_macros en w)"
  "calls_back_once (load_instance_config en w)"
  "calls_back_once (apply_instance_config en w)"
  "calls_back_once (generate_auth_key en w)"
  "calls_back_once (start_server en w)"
  by (simp_all add: load_opensbp_config_def apply_machine_config_def configure_dashboard_def
      load_apps_def load_macros_def load_instance_config_def apply_instance_config_def
      generate_auth_key_def readFile_secret_def writeFile_secret_def start_server_def
      ask_def calls_back_once_def Let_def split: option.splits)

lemma stages_call_back_once:
  assumes "(n, f) \<in> set engine_stages" "n \<noteq> ''load_driver_config'' \<or> isConnected en"
  shows "calls_back_once (f en w)"
  using assms unfolding engine_stages_def
  by (auto simp: once_1 once_2 once_3)

theorem start_failure_contract_witness:
  "fst (start True env_no_database world0) = Invoked [AErr ''EIO'']
   \<and> fst (snd (start True env_no_database world0)) =
       [''setup_application'', ''load_engine_config'', ''check_engine_config'',
        ''load_profiles'', ''load_users'', ''profile_shim'', ''get_fabmo_version'',
        ''clear_approot'', ''create_data_directories'', ''apply_engine_config'',
        ''setup_database'']
   \<and> (\<exists>w'. start True env_connected world0 =
         (Invoked [ANull, AEngine w'], map fst engine_stages, w'))"
proof -
  let ?pre = "take 10 engine_stages" and ?post = "drop 11 engine_stages"
  have e: "engine_stages = ?pre @ (''setup_database'', setup_database) # ?post"
    by (simp add: engine_stages_def)
  have "\<exists>w1. async_series ?pre env_no_database world0 = (Completed, map fst ?pre, w1)"
    by (simp add: engine_stages_def stage_defs env_no_database_def env0_def world0_def
        or_str_def trim_def is_ws_def Let_def)
  then obtain w1 where "async_series ?pre env_no_database world0 = (Completed, map fst ?pre, w1)"
    by blast
  then have pre: "runs_ok ?pre env_no_database world0 w1" by (rule series_runs_ok)
  have f: "setup_database env_no_database w1 = Ret [Some ''EIO''] (call ConfigureDB w1)"
    by (simp add: setup_database_def ask_def env_no_database_def)
  have "start True env_no_database world0 =
      (Invoked [AErr ''EIO''], map fst ?pre @ [''setup_database''], call ConfigureDB w1)"
    using start_failure_contract [of ?pre "''setup_database''" setup_database ?post
        env_no_database world0 w1 "''EIO''" "call ConfigureDB w1"] e pre f
    by blast
  then have a: "fst (start True env_no_database world0) = Invoked [AErr ''EIO'']"
    and b: "fst (snd (start True env_no_database world0)) =
       [''setup_application'', ''load_engine_config'', ''check_engine_config'',
        ''load_profiles'', ''load_users'', ''profile_shim'', ''get_fabmo_version'',
        ''clear_approot'', ''create_data_directories'', ''apply_engine_config'',
        ''setup_database'']"
    by (simp_all add: engine_stages_def)
  have "all_collaborators_succeed env_connected" "isConnected env_connected"
    "glob_files env_connected \<noteq> None"
    by (simp_all add: all_collaborators_succeed_def env_connected_def env0_def)
  then obtain w' where "runs_ok engine_stages env_connected world0 w'"
    using boot_connected_completes by blast
  then have "start True env_connected world0 =
      (Invoked [ANull, AEngine w'], map fst engine_stages, w')"
    using start_failure_contract [of "[]" "''x''" setup_database "[]" env_connected world0 world0
        "''e''" world0 w'] by blast
  with a b show ?thesis by blast
qed

text \<open>
  C5 fails on the code. With the machine not connected, \<open>load_driver_config\<close> invokes its
  completion callback twice: once from the callback of \<open>config.configureDriver(null, ...)\<close>
  and once directly after that call. The connected branch invokes it once, and so does
  every other stage (\<open>stages_call_back_once\<close>).
\<close>

theorem load_driver_config_calls_back_twice:
  "load_driver_config env0 (world0\<lparr>e_machine := True\<rparr>) =
     Ret [None, None] (world0\<lparr>e_machine := True, calls := [ConfigureDriver False]\<rparr>)
   \<and> load_driver_config (env0\<lparr>isConnected := True\<rparr>) (world0\<lparr>e_machine := True\<rparr>) =
     Ret [None] (world0\<lparr>e_machine := True, calls := [ConfigureDriver True]\<rparr>)"
  by (simp add: load_driver_config_def call_def env0_def world0_def)


end
